theory Spec2Isabelle
  imports Main
begin

section \<open>The up session supervisor of cmd/up.go\<close>

text \<open>
  The supervisor of \<^verbatim>\<open>cmd/up.go\<close> drives collaborators (cluster client, port
  forwarders, sync engine, terminal) whose code is not part of the file. The embedding
  keeps the control flow of each function of the file as it is written and makes the
  collaborators explicit: every call to one of them is an \<open>action\<close> appended to a trace,
  and what the call returns is read from a record of answers (\<open>world\<close>), one record per
  iteration of the supervisor loop. A Go \<^verbatim>\<open>error\<close> is an \<open>error option\<close>
  (\<open>None\<close> is \<^verbatim>\<open>nil\<close>); a pointer field is an option (\<open>None\<close> is \<^verbatim>\<open>nil\<close>).
  Console output of \<^verbatim>\<open>fmt\<close> and the progress bars are not traced; log lines are.
\<close>

subsection \<open>Errors, events and actions\<close>

text \<open>
  \<^verbatim>\<open>errors.ErrLostConnection\<close> and \<^verbatim>\<open>errors.ErrCommandFailed\<close> are the two
  sentinel values the file compares against with \<^verbatim>\<open>==\<close>; every other error value is
  \<open>Err\<close> with its message.
\<close>

datatype error = ErrLostConnection | ErrCommandFailed | Err string

datatype panic = NilDereference

datatype pod_label = OktetoSyncLabel | OktetoDevLabel

type_synonym term_state = nat

text \<open>
  What the \<^verbatim>\<open>select\<close> of \<^verbatim>\<open>WaitUntilExitOrInterrupt\<close> receives, in the order the
  \<^verbatim>\<open>select\<close> picks it: a value on \<^verbatim>\<open>up.Running\<close>, a value on \<^verbatim>\<open>up.ErrChan\<close>, or
  a token on \<^verbatim>\<open>up.Disconnect\<close>. The running channel carries the result of
  \<^verbatim>\<open>runCommand\<close>, which may be nil; the errors channel carries the errors of the
  forwarders, which are not nil.
\<close>

datatype event = RunningDelivers "error option" | ErrChanDelivers error | DisconnectFires

datatype action =
    SaveState
  | WithCancel nat
  | GetLocal
  | SyncthingNew
  | DeploymentsGet string string
  | AskYesNo string
  | GevDevSandbox
  | SecretsCreate
  | VolumesCreate string
  | DevModeOn bool
  | ServicesCreate
  | GetDevPod pod_label
  | NewDevForwarder
  | DevForwarderAdd nat nat
  | DevForwarderStart string string
  | SyRun
  | NewSyncForwarder
  | SyncForwarderAdd nat nat
  | SyncForwarderStart string string
  | SyMonitor
  | SyWaitForPing
  | SyWaitForCompletion
  | SyOverrideChanges
  | SyUpdateConfig string
  | SyRestart
  | SyIsConnected
  | Exec string string string "string list"
  | SendRunning
  | RecvRunning "error option"
  | RecvErrChan error
  | RecvDisconnect
  | RestoreTerminal term_state
  | CallCancel nat
  | WGWait
  | CloseDone
  | DevForwarderStop
  | SyncForwarderStop
  | LogDebugf string
  | LogDebugfErr string error
  | LogInfofErr string error
  | LogYellow string
  | LogYellowErr error
  | SendExit "error option"
  | Go "action list"

subsection \<open>WaitUntilExitOrInterrupt\<close>

text \<open>
  The loop around the three-way \<^verbatim>\<open>select\<close>. The argument is the sequence of
  deliveries the \<^verbatim>\<open>select\<close> sees; when it is exhausted no channel becomes ready any
  more and the function blocks: the result is \<open>None\<close>. \<open>Some r\<close> is the returned
  error \<open>r\<close>.
\<close>

fun WaitUntilExitOrInterrupt :: "event list \<Rightarrow> action list \<times> error option option" where
  "WaitUntilExitOrInterrupt [] = ([], None)"
| "WaitUntilExitOrInterrupt (RunningDelivers err # evs) =
     (case err of
        Some e \<Rightarrow>
          ([RecvRunning (Some e), LogInfofErr ''Command execution error: %s'' e],
           Some (Some ErrCommandFailed))
      | None \<Rightarrow> ([RecvRunning None], Some None))"
| "WaitUntilExitOrInterrupt (ErrChanDelivers err # evs) =
     (case WaitUntilExitOrInterrupt evs of
        (tr, r) \<Rightarrow> (RecvErrChan err # LogYellowErr err # tr, r))"
| "WaitUntilExitOrInterrupt (DisconnectFires # evs) =
     ([RecvDisconnect], Some (Some ErrLostConnection))"

text \<open>The receptions that end the wait: the exit causes.\<close>

fun is_exit_cause :: "action \<Rightarrow> bool" where
  "is_exit_cause (RecvRunning v) = True"
| "is_exit_cause RecvDisconnect = True"
| "is_exit_cause a = False"

text \<open>What a value on the errors channel leaves in the trace: its reception and a yellow line.\<close>

definition logged :: "error list \<Rightarrow> action list" where
  "logged errs = concat (map (\<lambda>e. [RecvErrChan e, LogYellowErr e]) errs)"

subsection \<open>The data of a session\<close>

text \<open>
  \<^verbatim>\<open>model.Dev\<close> and \<^verbatim>\<open>model.Forward\<close>, with the fields the supervisor reads.
\<close>

record forward =
  Local :: nat
  Remote :: nat

record dev =
  Name :: string
  Namespace :: string
  Volumes :: "string list"
  Forward :: "forward list"
  Command :: "string list"
  DevContainer :: string

text \<open>\<^verbatim>\<open>syncthing.Syncthing\<close>, with the fields the supervisor reads and writes.\<close>

record syncthing =
  Type :: string
  RemotePort :: nat
  RemoteGUIPort :: nat

text \<open>
  A \<^verbatim>\<open>forward.PortForwardManager\<close>: the context it was created under and the
  bindings added to it.
\<close>

datatype PortForwardManager =
  PortForwardManager (pfm_context: "nat option") (pfm_ports: "(nat \<times> nat) list")

datatype waitgroup = WaitGroup

type_synonym deployment = string

text \<open>
  \<^verbatim>\<open>UpContext\<close>. A context, its cancel function and the channels made by
  \<^verbatim>\<open>make\<close> in iteration \<open>n\<close> of the loop are \<open>Some n\<close>. \<open>Exit\<close> is the
  buffer of the exit channel, of capacity 1.
\<close>

record UpContext =
  Context :: "nat option"
  Cancel :: "nat option"
  WG :: "waitgroup option"
  Dev :: dev
  Client :: "nat option"
  RestConfig :: "nat option"
  DevPod :: string
  SyncPod :: string
  Container :: string
  DevForwarder :: "PortForwardManager option"
  SyncForwarder :: "PortForwardManager option"
  Disconnect :: "nat option"
  Running :: "nat option"
  Exit :: "error option list"
  Sy :: "syncthing option"
  ErrChan :: "nat option"

text \<open>
  The pure functions and constants of packages \<^verbatim>\<open>errors\<close>, \<^verbatim>\<open>deployments\<close>,
  \<^verbatim>\<open>volumes\<close> and \<^verbatim>\<open>syncthing\<close> that the file uses and does not define: parameters.
\<close>

record deps =
  IsNotFound :: "error \<Rightarrow> bool"
  IsDevModeOn :: "deployment \<Rightarrow> bool"
  GevDevSandbox_of :: "dev \<Rightarrow> deployment"
  GetVolumeDataName :: "dev \<Rightarrow> nat \<Rightarrow> string"
  ClusterPort :: nat
  GUIPort :: nat

text \<open>
  What the collaborators answer during one iteration of the supervisor loop. A call
  that returns a value and an error is a sum (\<open>Inl\<close> the error): with an error it
  returns nil values, without one its pointers are not nil. Every call returns; the
  only places where the supervisor can wait for ever are its own \<^verbatim>\<open>select\<close>s and
  the send on the exit channel.
  \<open>r_WG_drain\<close> is the time in milliseconds, counted from the start of a shutdown,
  at which \<^verbatim>\<open>WG.Wait()\<close> returns (\<open>None\<close>: never); \<open>r_pick\<close> is the choice of
  the runtime when several cases of a \<^verbatim>\<open>select\<close> are ready at once.
\<close>

record world =
  r_GetLocal :: "error + (nat \<times> nat \<times> string)"
  r_syncthing_New :: "error + syncthing"
  r_deployments_Get :: "error + deployment"
  r_askYesNo :: bool
  r_secrets_Create :: "error option"
  r_volumes_Create :: "string \<Rightarrow> error option"
  r_DevModeOn :: "error + string"
  r_services_Create :: "error option"
  r_GetDevPod :: "pod_label \<Rightarrow> error + string"
  r_DevForwarder_Add :: "nat \<Rightarrow> nat \<Rightarrow> error option"
  r_Sy_Run :: "error option"
  r_SyncForwarder_Add :: "nat \<Rightarrow> nat \<Rightarrow> error option"
  r_WaitForPing :: "error option"
  r_WaitForCompletion_1 :: "error option"
  r_OverrideChanges :: "error option"
  r_WaitForCompletion_2 :: "error option"
  r_UpdateConfig :: "error option"
  r_Restart :: "error option"
  events :: "event list"
  r_RestoreTerminal :: "error option"
  r_IsConnected :: bool
  r_WG_drain :: "nat option"
  r_pick :: nat

text \<open>
  How a function of the file ends: it panics, it blocks for ever, or it returns.
\<close>

datatype 'a completion = Panics panic | Blocks | Returns 'a

subsection \<open>devMode\<close>

text \<open>
  The loop of lines 260-264 over the indices of \<^verbatim>\<open>up.Dev.Volumes\<close>, given the
  volume names in order; it stops at the first error.
\<close>

fun create_data_volumes :: "world \<Rightarrow> string list \<Rightarrow> action list \<times> error option" where
  "create_data_volumes w [] = ([], None)"
| "create_data_volumes w (v # vs) =
     (case r_volumes_Create w v of
        Some err \<Rightarrow> ([VolumesCreate v], Some err)
      | None \<Rightarrow>
          (case create_data_volumes w vs of (tr, r) \<Rightarrow> (VolumesCreate v # tr, r)))"

text \<open>
  Lines 229-243: the fetch of the deployment, and the sandbox when it is missing. The
  result is the error to return with the trace, or the deployment, the \<^verbatim>\<open>create\<close>
  flag and the trace.
\<close>

definition get_deployment ::
  "deps \<Rightarrow> world \<Rightarrow> bool \<Rightarrow> dev \<Rightarrow> (action list \<times> error) + (deployment \<times> bool \<times> action list)" where
  "get_deployment ds w isRetry dv =
     (case r_deployments_Get w of
        Inr d \<Rightarrow> Inr (d, False, [DeploymentsGet (Name dv) (Namespace dv)])
      | Inl err \<Rightarrow>
          if \<not> IsNotFound ds err \<or> isRetry
          then Inl ([DeploymentsGet (Name dv) (Namespace dv)], err)
          else if \<not> r_askYesNo w
          then Inl ([DeploymentsGet (Name dv) (Namespace dv), AskYesNo (Name dv)],
                 Err (''deployment '' @ Name dv @ '' not found [current context: ''
                        @ Namespace dv @ '']''))
          else Inr (GevDevSandbox_of ds dv, True,
                 [DeploymentsGet (Name dv) (Namespace dv), AskYesNo (Name dv), GevDevSandbox]))"

text \<open>Lines 244-293: from the dev-mode check to the two pods.\<close>

definition activate_deployment ::
  "deps \<Rightarrow> world \<Rightarrow> bool \<Rightarrow> deployment \<Rightarrow> bool \<Rightarrow> UpContext
     \<Rightarrow> UpContext \<times> action list \<times> error option" where
  "activate_deployment ds w isRetry d create up =
     (if isRetry \<and> \<not> IsDevModeOn ds d
      then (up, [], Some (Err ''Your Okteto Environment has been deactivated''))
      else case r_secrets_Create w of
        Some err \<Rightarrow> (up, [SecretsCreate], Some err)
      | None \<Rightarrow>
      (case r_volumes_Create w (Name (Dev up)) of
        Some err \<Rightarrow> (up, [SecretsCreate, VolumesCreate (Name (Dev up))], Some err)
      | None \<Rightarrow>
      (case create_data_volumes w
              (map (GetVolumeDataName ds (Dev up)) [0 ..< length (Volumes (Dev up))]) of
        (tv, Some err) \<Rightarrow>
          (up, [SecretsCreate, VolumesCreate (Name (Dev up))] @ tv, Some err)
      | (tv, None) \<Rightarrow>
      (case r_DevModeOn w of
        Inl err \<Rightarrow>
          (up, [SecretsCreate, VolumesCreate (Name (Dev up))] @ tv @ [DevModeOn create],
           Some err)
      | Inr c \<Rightarrow>
      (case (if create then r_services_Create w else None) of
        Some err \<Rightarrow>
          (up\<lparr>Container := c\<rparr>,
           [SecretsCreate, VolumesCreate (Name (Dev up))] @ tv
             @ [DevModeOn create, ServicesCreate],
           Some err)
      | None \<Rightarrow>
      (case r_GetDevPod w OktetoSyncLabel of
        Inl err \<Rightarrow>
          (up\<lparr>Container := c\<rparr>,
           [SecretsCreate, VolumesCreate (Name (Dev up))] @ tv @ [DevModeOn create]
             @ (if create then [ServicesCreate] else []) @ [GetDevPod OktetoSyncLabel],
           Some err)
      | Inr sp \<Rightarrow>
      (case r_GetDevPod w OktetoDevLabel of
        Inl err \<Rightarrow>
          (up\<lparr>Container := c, SyncPod := sp\<rparr>,
           [SecretsCreate, VolumesCreate (Name (Dev up))] @ tv @ [DevModeOn create]
             @ (if create then [ServicesCreate] else [])
             @ [GetDevPod OktetoSyncLabel, GetDevPod OktetoDevLabel],
           Some err)
      | Inr dp \<Rightarrow>
          (up\<lparr>Container := c, SyncPod := sp, DevPod := dp\<rparr>,
           [SecretsCreate, VolumesCreate (Name (Dev up))] @ tv @ [DevModeOn create]
             @ (if create then [ServicesCreate] else [])
             @ [GetDevPod OktetoSyncLabel, GetDevPod OktetoDevLabel],
           None))))))))"

definition devMode ::
  "deps \<Rightarrow> world \<Rightarrow> bool \<Rightarrow> UpContext \<Rightarrow> UpContext \<times> action list \<times> error option" where
  "devMode ds w isRetry up =
     (case r_GetLocal w of
        Inl err \<Rightarrow> (up\<lparr>Client := None, RestConfig := None\<rparr>, [GetLocal], Some err)
      | Inr (client, config, namespace) \<Rightarrow>
          (let up1 = up\<lparr>Client := Some client, RestConfig := Some config\<rparr>;
               up2 = (if Namespace (Dev up1) = []
                      then up1\<lparr>Dev := (Dev up1)\<lparr>Namespace := namespace\<rparr>\<rparr> else up1)
           in (case r_syncthing_New w of
                 Inl err \<Rightarrow> (up2\<lparr>Sy := None\<rparr>, [GetLocal, SyncthingNew], Some err)
               | Inr sy \<Rightarrow>
                   (case get_deployment ds w isRetry (Dev up2) of
                      Inl (tg, err) \<Rightarrow>
                        (up2\<lparr>Sy := Some sy\<rparr>, [GetLocal, SyncthingNew] @ tg, Some err)
                    | Inr (d, create, tg) \<Rightarrow>
                        (case activate_deployment ds w isRetry d create (up2\<lparr>Sy := Some sy\<rparr>) of
                           (up4, ta, r) \<Rightarrow> (up4, [GetLocal, SyncthingNew] @ tg @ ta, r))))))"

subsection \<open>startSync\<close>

text \<open>
  The calls of lines 297-332 in their order, each followed by its early return. The
  pointer \<^verbatim>\<open>up.Sy\<close> is read first: a nil one is a panic.
\<close>

definition startSync ::
  "deps \<Rightarrow> world \<Rightarrow> UpContext \<Rightarrow> (UpContext \<times> action list \<times> error option) completion" where
  "startSync ds w up =
     (case Sy up of
        None \<Rightarrow> Panics NilDereference
      | Some sy \<Rightarrow>
      (case r_Sy_Run w of
        Some err \<Rightarrow> Returns (up, [SyRun], Some err)
      | None \<Rightarrow>
      (case r_SyncForwarder_Add w (RemotePort sy) (ClusterPort ds) of
        Some err \<Rightarrow>
          Returns (up\<lparr>SyncForwarder := Some (PortForwardManager (Context up) [])\<rparr>,
            [SyRun, NewSyncForwarder, SyncForwarderAdd (RemotePort sy) (ClusterPort ds)],
            Some err)
      | None \<Rightarrow>
      (case r_SyncForwarder_Add w (RemoteGUIPort sy) (GUIPort ds) of
        Some err \<Rightarrow>
          Returns (up\<lparr>SyncForwarder := Some (PortForwardManager (Context up)
                      [(RemotePort sy, ClusterPort ds)])\<rparr>,
            [SyRun, NewSyncForwarder, SyncForwarderAdd (RemotePort sy) (ClusterPort ds),
             SyncForwarderAdd (RemoteGUIPort sy) (GUIPort ds)],
            Some err)
      | None \<Rightarrow>
      (let up1 = up\<lparr>SyncForwarder := Some (PortForwardManager (Context up)
                      [(RemotePort sy, ClusterPort ds), (RemoteGUIPort sy, GUIPort ds)])\<rparr>;
           t1 = [SyRun, NewSyncForwarder, SyncForwarderAdd (RemotePort sy) (ClusterPort ds),
                 SyncForwarderAdd (RemoteGUIPort sy) (GUIPort ds),
                 SyncForwarderStart (SyncPod up) (Namespace (Dev up)), Go [SyMonitor]]
       in
      (case r_WaitForPing w of
        Some err \<Rightarrow> Returns (up1, t1 @ [SyWaitForPing], Some err)
      | None \<Rightarrow>
      (case r_WaitForCompletion_1 w of
        Some err \<Rightarrow> Returns (up1, t1 @ [SyWaitForPing, SyWaitForCompletion], Some err)
      | None \<Rightarrow>
      (case r_OverrideChanges w of
        Some err \<Rightarrow>
          Returns (up1, t1 @ [SyWaitForPing, SyWaitForCompletion, SyOverrideChanges], Some err)
      | None \<Rightarrow>
      (case r_WaitForCompletion_2 w of
        Some err \<Rightarrow>
          Returns (up1,
            t1 @ [SyWaitForPing, SyWaitForCompletion, SyOverrideChanges, SyWaitForCompletion],
            Some err)
      | None \<Rightarrow>
      (let up2 = up1\<lparr>Sy := Some (sy\<lparr>Type := ''sendreceive''\<rparr>)\<rparr>
       in
      (case r_UpdateConfig w of
        Some err \<Rightarrow>
          Returns (up2,
            t1 @ [SyWaitForPing, SyWaitForCompletion, SyOverrideChanges, SyWaitForCompletion,
                  SyUpdateConfig ''sendreceive''],
            Some err)
      | None \<Rightarrow>
          Returns (up2,
            t1 @ [SyWaitForPing, SyWaitForCompletion, SyOverrideChanges, SyWaitForCompletion,
                  SyUpdateConfig ''sendreceive'', SyRestart],
            r_Restart w))))))))))))"

subsection \<open>runCommand\<close>

definition reap_command :: "string list" where
  "reap_command =
     [''sh'', ''-c'',
      ''trap '' @ [CHR 0x27, CHR 0x27]
        @ '' TERM && kill -- -1 && sleep 0.1 & kill -s KILL -- -1 >/dev/null 2>&1'']"

text \<open>
  The two \<^verbatim>\<open>exec.Exec\<close> calls. The error of the second is the value of the function:
  it is what the running channel delivers, an \<open>event\<close> of the world.
\<close>

definition runCommand :: "UpContext \<Rightarrow> action list" where
  "runCommand up =
     [Exec (Namespace (Dev up)) (DevPod up) (DevContainer (Dev up)) reap_command,
      Exec (Namespace (Dev up)) (DevPod up) (DevContainer (Dev up)) (Command (Dev up))]"

subsection \<open>shutdown\<close>

text \<open>
  A \<^verbatim>\<open>select\<close> whose cases have known times of readiness (\<open>None\<close>: never ready).
  It blocks for ever when no case ever becomes ready; otherwise it takes a case that is
  ready first, at that time, and among several such cases the one the runtime picks.
\<close>

definition earliest :: "nat option list \<Rightarrow> nat option" where
  "earliest ready =
     (case List.map_filter (\<lambda>r. r) ready of [] \<Rightarrow> None | t # ts \<Rightarrow> Some (fold min ts t))"

definition select_case :: "nat option list \<Rightarrow> nat \<Rightarrow> (nat \<times> nat) option" where
  "select_case ready pick =
     (case earliest ready of
        None \<Rightarrow> None
      | Some t \<Rightarrow>
          (let cands = filter (\<lambda>i. ready ! i = Some t) [0 ..< length ready]
           in Some (cands ! (pick mod length cands), t)))"

text \<open>Calling a nil function, or a method that reads its nil receiver, panics.\<close>

definition call_Cancel :: "nat option \<Rightarrow> panic + action list" where
  "call_Cancel c = (case c of None \<Rightarrow> Inl NilDereference | Some k \<Rightarrow> Inr [CallCancel k])"

definition call_Wait :: "waitgroup option \<Rightarrow> panic + action list" where
  "call_Wait g = (case g of None \<Rightarrow> Inl NilDereference | Some _ \<Rightarrow> Inr [WGWait])"

definition call_Stop :: "action \<Rightarrow> PortForwardManager option \<Rightarrow> panic + action list" where
  "call_Stop a m = (case m of None \<Rightarrow> Inl NilDereference | Some _ \<Rightarrow> Inr [a])"

text \<open>
  The result is the trace of the calling goroutine and the time the call took, in
  milliseconds. \<open>Go tr\<close> is the start of a goroutine that performs \<open>tr\<close>. The channel
  \<^verbatim>\<open>done\<close> is closed when the first goroutine has passed \<^verbatim>\<open>WG.Wait()\<close>: at once when
  \<^verbatim>\<open>up.WG\<close> is nil, at \<open>r_WG_drain\<close> otherwise.
\<close>

definition shutdown :: "world \<Rightarrow> UpContext \<Rightarrow> (action list \<times> nat) completion" where
  "shutdown w up =
     (case (if Cancel up \<noteq> None then call_Cancel (Cancel up) else Inr []) of
        Inl p \<Rightarrow> Panics p
      | Inr tc \<Rightarrow>
      (case (if WG up \<noteq> None then call_Wait (WG up) else Inr []) of
        Inl p \<Rightarrow> Panics p
      | Inr tw \<Rightarrow>
      (case (if DevForwarder up \<noteq> None
             then call_Stop DevForwarderStop (DevForwarder up) else Inr []) of
        Inl p \<Rightarrow> Panics p
      | Inr td \<Rightarrow>
      (case (if SyncForwarder up \<noteq> None
             then call_Stop SyncForwarderStop (SyncForwarder up) else Inr []) of
        Inl p \<Rightarrow> Panics p
      | Inr ts \<Rightarrow>
      (case select_case [if WG up \<noteq> None then r_WG_drain w else Some 0, Some 1000]
              (r_pick w) of
        None \<Rightarrow> Blocks
      | Some (i, t) \<Rightarrow>
          Returns
            ([LogDebugf ''cancelling context''] @ tc
               @ [LogDebugf ''waiting for tasks for be done'',
                  Go (tw @ [CloseDone]), Go (td @ ts),
                  LogDebugf (if i = 0 then ''completed shutdown sequence''
                             else ''tasks didn'' @ [CHR 0x27] @ ''t finish, terminating'')],
             t))))))"

subsection \<open>Activate\<close>

text \<open>
  How the supervisor goroutine ends: it has sent a value on the exit channel and
  returned, it blocks for ever, it panics, or the worlds given do not reach its end.
\<close>

datatype outcome = Posted "error option" | Blocked | Crashed panic | Unfinished

text \<open>One iteration of the loop ends the supervisor or goes on to the next iteration.\<close>

datatype step = Done "UpContext \<times> action list \<times> outcome" | Again UpContext "action list"

text \<open>
  \<^verbatim>\<open>up.Exit <- v; return\<close>: the send goes through when the buffer of capacity 1 has
  room, and blocks otherwise.
\<close>

definition send_Exit ::
  "UpContext \<Rightarrow> action list \<Rightarrow> error option \<Rightarrow> UpContext \<times> action list \<times> outcome" where
  "send_Exit up tr v =
     (if length (Exit up) < 1
      then (up\<lparr>Exit := Exit up @ [v]\<rparr>, tr @ [SendExit v], Posted v)
      else (up, tr, Blocked))"

text \<open>The loop of lines 147-152 over \<^verbatim>\<open>up.Dev.Forward\<close>.\<close>

fun add_forwards ::
  "world \<Rightarrow> forward list \<Rightarrow> PortForwardManager
     \<Rightarrow> PortForwardManager \<times> action list \<times> error option" where
  "add_forwards w [] m = (m, [], None)"
| "add_forwards w (f # fs) m =
     (case r_DevForwarder_Add w (Local f) (Remote f) of
        Some err \<Rightarrow> (m, [DevForwarderAdd (Local f) (Remote f)], Some err)
      | None \<Rightarrow>
          (case add_forwards w fs
                  (PortForwardManager (pfm_context m) (pfm_ports m @ [(Local f, Remote f)])) of
             (m', tr, r) \<Rightarrow> (m', DevForwarderAdd (Local f) (Remote f) # tr, r)))"

definition reconnecting_message :: string where
  "reconnecting_message = ''Connection lost to your Okteto Environment, reconnecting...''"

text \<open>Lines 181-183: the yellow line, \<^verbatim>\<open>up.shutdown()\<close>, \<^verbatim>\<open>continue\<close>.\<close>

definition reconnect :: "world \<Rightarrow> UpContext \<Rightarrow> action list \<Rightarrow> step" where
  "reconnect w up tr =
     (case shutdown w up of
        Panics p \<Rightarrow> Done (up, tr @ [LogYellow reconnecting_message], Crashed p)
      | Blocks \<Rightarrow> Done (up, tr @ [LogYellow reconnecting_message], Blocked)
      | Returns (ts, t) \<Rightarrow> Again up (tr @ [LogYellow reconnecting_message] @ ts))"

text \<open>
  Lines 175-188, with the error \<open>prevError\<close> that the wait returned and the trace
  \<open>tr\<close> so far: the restore of the terminal, then the choice between going round
  the loop again and sending on the exit channel.
\<close>

definition after_wait ::
  "term_state \<Rightarrow> world \<Rightarrow> UpContext \<Rightarrow> action list \<Rightarrow> error option \<Rightarrow> step" where
  "after_wait state w up tr prevError =
     (let t1 = tr @ [RestoreTerminal state]
                 @ (case r_RestoreTerminal w of
                      Some err \<Rightarrow> [LogDebugfErr ''failed to restore terminal: %s'' err]
                    | None \<Rightarrow> [])
      in (case prevError of
            None \<Rightarrow> Done (send_Exit up t1 None)
          | Some pe \<Rightarrow>
              if pe = ErrLostConnection then reconnect w up t1
              else if pe = ErrCommandFailed
              then (case Sy up of
                      None \<Rightarrow> Done (up, t1, Crashed NilDereference)
                    | Some sy \<Rightarrow>
                        if \<not> r_IsConnected w then reconnect w up (t1 @ [SyIsConnected])
                        else Done (send_Exit up (t1 @ [SyIsConnected]) prevError))
              else Done (send_Exit up t1 prevError)))"

text \<open>The body of the loop, lines 134-188, in iteration \<open>n\<close>.\<close>

definition iteration ::
  "deps \<Rightarrow> term_state \<Rightarrow> nat \<Rightarrow> bool \<Rightarrow> world \<Rightarrow> UpContext \<Rightarrow> step" where
  "iteration ds state n retry w up =
     (case devMode ds w retry
             (up\<lparr>Context := Some n, Cancel := Some n, Disconnect := Some n,
                 Running := Some n, ErrChan := Some n\<rparr>) of
        (up2, td, Some err) \<Rightarrow> Done (send_Exit up2 ([WithCancel n] @ td) (Some err))
      | (up2, td, None) \<Rightarrow>
      (case add_forwards w (Forward (Dev up2)) (PortForwardManager (Context up2) []) of
        (m, tf, Some err) \<Rightarrow>
          Done (send_Exit (up2\<lparr>DevForwarder := Some m\<rparr>)
                  ([WithCancel n] @ td @ [NewDevForwarder] @ tf) (Some err))
      | (m, tf, None) \<Rightarrow>
      (let up3 = up2\<lparr>DevForwarder := Some m\<rparr>;
           t3 = [WithCancel n] @ td @ [NewDevForwarder] @ tf
                  @ [DevForwarderStart (DevPod up3) (Namespace (Dev up3))]
       in
      (case startSync ds w up3 of
        Panics p \<Rightarrow> Done (up3, t3, Crashed p)
      | Blocks \<Rightarrow> Done (up3, t3, Blocked)
      | Returns (up4, ts, Some err) \<Rightarrow> Done (send_Exit up4 (t3 @ ts) (Some err))
      | Returns (up4, ts, None) \<Rightarrow>
      (case WaitUntilExitOrInterrupt (events w) of
        (tw, None) \<Rightarrow>
          Done (up4, t3 @ ts @ [Go (runCommand up4 @ [SendRunning])] @ tw, Blocked)
      | (tw, Some prevError) \<Rightarrow>
          after_wait state w up4
            (t3 @ ts @ [Go (runCommand up4 @ [SendRunning])] @ tw) prevError)))))"

text \<open>
  The \<^verbatim>\<open>for\<close> loop. It may go round for ever, so it runs on the worlds it is given,
  one per iteration; when they are used up the outcome is \<open>Unfinished\<close>. The flag
  \<^verbatim>\<open>retry\<close> was set before \<^verbatim>\<open>continue\<close> can be reached.
\<close>

fun Activate_loop ::
  "deps \<Rightarrow> term_state \<Rightarrow> nat \<Rightarrow> bool \<Rightarrow> UpContext \<Rightarrow> world list
     \<Rightarrow> UpContext \<times> action list \<times> outcome" where
  "Activate_loop ds state n retry up [] = (up, [], Unfinished)"
| "Activate_loop ds state n retry up (w # ws) =
     (case iteration ds state n retry w up of
        Done r \<Rightarrow> r
      | Again up' tr \<Rightarrow>
          (case Activate_loop ds state (Suc n) True up' ws of
             (up'', tr', out) \<Rightarrow> (up'', tr @ tr', out)))"

text \<open>\<open>saved\<close> is what \<^verbatim>\<open>term.SaveState\<close> returns.\<close>

definition Activate ::
  "deps \<Rightarrow> error + term_state \<Rightarrow> UpContext \<Rightarrow> world list
     \<Rightarrow> UpContext \<times> action list \<times> outcome" where
  "Activate ds saved up ws =
     (case saved of
        Inl err \<Rightarrow> send_Exit up [SaveState] (Some err)
      | Inr state \<Rightarrow>
          (case Activate_loop ds state 0 False up ws of
             (up', tr, out) \<Rightarrow> (up', SaveState # tr, out)))"

subsection \<open>RunUp\<close>

text \<open>The context \<^verbatim>\<open>RunUp\<close> builds: every field it does not name is nil or empty.\<close>

definition new_UpContext :: "dev \<Rightarrow> UpContext" where
  "new_UpContext dv =
     \<lparr>Context = None, Cancel = None, WG = Some WaitGroup, Dev = dv, Client = None,
      RestConfig = None, DevPod = [], SyncPod = [], Container = [], DevForwarder = None,
      SyncForwarder = None, Disconnect = None, Running = None, Exit = [], Sy = None,
      ErrChan = None\<rparr>"

text \<open>The deferred \<^verbatim>\<open>up.shutdown()\<close>, then the return of \<open>r\<close>.\<close>

definition deferred_shutdown ::
  "world \<Rightarrow> UpContext \<Rightarrow> action list \<Rightarrow> error option
     \<Rightarrow> (action list \<times> error option) completion" where
  "deferred_shutdown w up tr r =
     (case shutdown w up of
        Panics p \<Rightarrow> Panics p
      | Blocks \<Rightarrow> Blocks
      | Returns (ts, t) \<Rightarrow> Returns (tr @ ts, r))"

text \<open>
  The \<^verbatim>\<open>select\<close> between the interrupt and the exit channel. \<open>interrupt\<close> is
  \<open>Some u\<close> when the \<^verbatim>\<open>select\<close> takes the interrupt, the supervisor goroutine having
  brought the context to \<open>u\<close> by then, and \<open>None\<close> when no interrupt is taken. \<open>wd\<close>
  is the world of the deferred shutdown. The result is \<open>None\<close> when the worlds given
  do not reach the end of the supervisor.
\<close>

definition RunUp ::
  "deps \<Rightarrow> dev \<Rightarrow> error + term_state \<Rightarrow> world list \<Rightarrow> UpContext option \<Rightarrow> world
     \<Rightarrow> (action list \<times> error option) completion option" where
  "RunUp ds dv saved ws interrupt wd =
     (case interrupt of
        Some u \<Rightarrow>
          Some (deferred_shutdown wd u
                  [LogDebugf ''CTRL+C received, starting shutdown sequence''] None)
      | None \<Rightarrow>
          (case Activate ds saved (new_UpContext dv) ws of
             (up', ta, Unfinished) \<Rightarrow> None
           | (up', ta, Crashed p) \<Rightarrow> Some (Panics p)
           | (up', ta, Blocked) \<Rightarrow> Some Blocks
           | (up', ta, Posted v) \<Rightarrow>
               (case Exit up' of
                  [] \<Rightarrow> Some Blocks
                | err # buf \<Rightarrow>
                    (case err of
                       None \<Rightarrow>
                         Some (deferred_shutdown wd (up'\<lparr>Exit := buf\<rparr>)
                           [LogDebugf ''finished channel received, starting shutdown sequence'']
                           None)
                     | Some e \<Rightarrow>
                         Some (deferred_shutdown wd (up'\<lparr>Exit := buf\<rparr>) [] (Some e))))))"

subsection \<open>Classes of actions\<close>

text \<open>The prompt for a sandbox and the making of the sandbox deployment.\<close>

fun is_sandbox_action :: "action \<Rightarrow> bool" where
  "is_sandbox_action (AskYesNo nm) = True"
| "is_sandbox_action GevDevSandbox = True"
| "is_sandbox_action a = False"

text \<open>
  The calls that change the cluster: creating the secret, a volume or the service, and
  applying dev mode.
\<close>

fun is_cluster_mutation :: "action \<Rightarrow> bool" where
  "is_cluster_mutation SecretsCreate = True"
| "is_cluster_mutation (VolumesCreate v) = True"
| "is_cluster_mutation (DevModeOn c) = True"
| "is_cluster_mutation ServicesCreate = True"
| "is_cluster_mutation a = False"

text \<open>
  The actions each part of an iteration can put in the trace: those of \<open>devMode\<close>,
  of \<open>startSync\<close> and of \<open>shutdown\<close>.
\<close>

fun is_devMode_action :: "action \<Rightarrow> bool" where
  "is_devMode_action GetLocal = True"
| "is_devMode_action SyncthingNew = True"
| "is_devMode_action (DeploymentsGet nm ns) = True"
| "is_devMode_action (AskYesNo nm) = True"
| "is_devMode_action GevDevSandbox = True"
| "is_devMode_action SecretsCreate = True"
| "is_devMode_action (VolumesCreate v) = True"
| "is_devMode_action (DevModeOn c) = True"
| "is_devMode_action ServicesCreate = True"
| "is_devMode_action (GetDevPod l) = True"
| "is_devMode_action a = False"

fun is_sync_action :: "action \<Rightarrow> bool" where
  "is_sync_action SyRun = True"
| "is_sync_action NewSyncForwarder = True"
| "is_sync_action (SyncForwarderAdd l r) = True"
| "is_sync_action (SyncForwarderStart p ns) = True"
| "is_sync_action (Go tr) = True"
| "is_sync_action SyWaitForPing = True"
| "is_sync_action SyWaitForCompletion = True"
| "is_sync_action SyOverrideChanges = True"
| "is_sync_action (SyUpdateConfig t) = True"
| "is_sync_action SyRestart = True"
| "is_sync_action a = False"

fun is_shutdown_action :: "action \<Rightarrow> bool" where
  "is_shutdown_action (LogDebugf m) = True"
| "is_shutdown_action (CallCancel k) = True"
| "is_shutdown_action (Go tr) = True"
| "is_shutdown_action a = False"

text \<open>
  The view of a trace in which the terminal discipline is read: the save and the
  restores of the terminal, the receptions that end a wait, and the three actions of
  the exit selection (the question to the sync engine, the reconnection line, the send
  on the exit channel).
\<close>

fun is_supervision :: "action \<Rightarrow> bool" where
  "is_supervision SaveState = True"
| "is_supervision (RestoreTerminal s) = True"
| "is_supervision (RecvRunning v) = True"
| "is_supervision RecvDisconnect = True"
| "is_supervision SyIsConnected = True"
| "is_supervision (LogYellow m) = True"
| "is_supervision (SendExit v) = True"
| "is_supervision a = False"

fun is_restore :: "action \<Rightarrow> bool" where
  "is_restore (RestoreTerminal s) = True"
| "is_restore a = False"

text \<open>
  The discipline on such a view, after the save: every reception that ends a wait is
  followed at once by the restore of the terminal to the saved state \<open>st\<close>, no
  other restore occurs, and the terminal state is not saved again.
\<close>

fun supervised :: "term_state \<Rightarrow> action list \<Rightarrow> bool" where
  "supervised st [] = True"
| "supervised st [a] = (\<not> is_exit_cause a \<and> \<not> is_restore a \<and> a \<noteq> SaveState)"
| "supervised st (a # b # as) =
     (if is_exit_cause a then b = RestoreTerminal st \<and> supervised st as
      else \<not> is_restore a \<and> a \<noteq> SaveState \<and> supervised st (b # as))"

text \<open>The trace of one iteration.\<close>

fun trace_of :: "step \<Rightarrow> action list" where
  "trace_of (Done r) = fst (snd r)"
| "trace_of (Again up tr) = tr"

subsection \<open>A session for the examples\<close>

text \<open>
  A manifest for the deployment \<open>web\<close> with one volume and one forward, and a
  world in which every call succeeds, the errors channel delivers one error, and the
  remote command then ends without error while the sync engine is connected.
\<close>

definition test_deps :: deps where
  "test_deps = \<lparr>IsNotFound = (\<lambda>e. e = Err ''not found''), IsDevModeOn = (\<lambda>d. d = ''web-dev''),
     GevDevSandbox_of = (\<lambda>dv. ''sandbox''), GetVolumeDataName = (\<lambda>dv i. ''data''),
     ClusterPort = 22000, GUIPort = 8384\<rparr>"

definition test_dev :: dev where
  "test_dev = \<lparr>Name = ''web'', Namespace = ''ns'', Volumes = [''/data''],
     Forward = [\<lparr>Local = 8080, Remote = 80\<rparr>], Command = [''sh''], DevContainer = ''web''\<rparr>"

definition test_world :: world where
  "test_world = \<lparr>r_GetLocal = Inr (1, 2, ''default''),
     r_syncthing_New = Inr \<lparr>Type = ''sendonly'', RemotePort = 22100, RemoteGUIPort = 8484\<rparr>,
     r_deployments_Get = Inr ''web-dev'', r_askYesNo = False, r_secrets_Create = None,
     r_volumes_Create = (\<lambda>v. None), r_DevModeOn = Inr ''dev'', r_services_Create = None,
     r_GetDevPod = (\<lambda>l. Inr (if l = OktetoSyncLabel then ''sync-pod'' else ''dev-pod'')),
     r_DevForwarder_Add = (\<lambda>l r. None), r_Sy_Run = None, r_SyncForwarder_Add = (\<lambda>l r. None),
     r_WaitForPing = None, r_WaitForCompletion_1 = None, r_OverrideChanges = None,
     r_WaitForCompletion_2 = None, r_UpdateConfig = None, r_Restart = None,
     events = [ErrChanDelivers (Err ''broken pipe''), RunningDelivers None],
     r_RestoreTerminal = None, r_IsConnected = True, r_WG_drain = Some 20, r_pick = 0\<rparr>"

subsection \<open>Names for parts of devMode\<close>

text \<open>
  The namespace \<open>devMode\<close> works in: the one of the manifest, or the one of the local
  cluster configuration when the manifest names none (lines 220-222).
\<close>

definition effective_namespace :: "world \<Rightarrow> UpContext \<Rightarrow> string" where
  "effective_namespace w up =
     (if Namespace (Dev up) = []
      then (case r_GetLocal w of Inr (client, config, namespace) \<Rightarrow> namespace | Inl err \<Rightarrow> [])
      else Namespace (Dev up))"

text \<open>The error of line 238, returned when the user declines the sandbox.\<close>

definition declined :: "string \<Rightarrow> string \<Rightarrow> error" where
  "declined nm ns = Err (''deployment '' @ nm @ '' not found [current context: '' @ ns @ '']'')"

subsection \<open>The sync bring-up as the specification words it\<close>

text \<open>
  The steps of the bring-up in the order of the specification, each with the error it
  returns in the world \<open>w\<close>: launch the agent, make and start the sync forwarders
  and the monitor, wait for the ping, wait for the first completion, override the remote
  changes, wait for the second completion, update the configuration in mode
  send-receive, restart.
\<close>

definition sync_plan :: "deps \<Rightarrow> world \<Rightarrow> UpContext \<Rightarrow> syncthing \<Rightarrow> (action \<times> error option) list" where
  "sync_plan ds w up sy =
     [(SyRun, r_Sy_Run w),
      (NewSyncForwarder, None),
      (SyncForwarderAdd (RemotePort sy) (ClusterPort ds),
         r_SyncForwarder_Add w (RemotePort sy) (ClusterPort ds)),
      (SyncForwarderAdd (RemoteGUIPort sy) (GUIPort ds),
         r_SyncForwarder_Add w (RemoteGUIPort sy) (GUIPort ds)),
      (SyncForwarderStart (SyncPod up) (Namespace (Dev up)), None),
      (Go [SyMonitor], None),
      (SyWaitForPing, r_WaitForPing w),
      (SyWaitForCompletion, r_WaitForCompletion_1 w),
      (SyOverrideChanges, r_OverrideChanges w),
      (SyWaitForCompletion, r_WaitForCompletion_2 w),
      (SyUpdateConfig ''sendreceive'', r_UpdateConfig w),
      (SyRestart, r_Restart w)]"

text \<open>
  Performing steps strictly in order: each step begins when the one before has returned
  without error, and the first error ends the sequence and is its result.
\<close>

fun first_failure :: "(action \<times> error option) list \<Rightarrow> action list \<times> error option" where
  "first_failure [] = ([], None)"
| "first_failure ((a, r) # steps) =
     (case r of
        Some err \<Rightarrow> ([a], Some err)
      | None \<Rightarrow> (case first_failure steps of (tr, res) \<Rightarrow> (a # tr, res)))"

text \<open>A world in which overriding the remote changes fails.\<close>

definition conflict_world :: world where
  "conflict_world = test_world\<lparr>r_OverrideChanges := Some (Err ''conflict'')\<rparr>"

subsection \<open>What a shutdown does\<close>

text \<open>
  The trace of a shutdown of the context \<open>up\<close> that ends with the debug line \<open>m\<close>:
  each of the four calls is there exactly when its field is not nil.
\<close>

definition shutdown_calls :: "UpContext \<Rightarrow> string \<Rightarrow> action list" where
  "shutdown_calls up m =
     [LogDebugf ''cancelling context'']
       @ (case Cancel up of None \<Rightarrow> [] | Some k \<Rightarrow> [CallCancel k])
       @ [LogDebugf ''waiting for tasks for be done'',
          Go ((case WG up of None \<Rightarrow> [] | Some g \<Rightarrow> [WGWait]) @ [CloseDone]),
          Go ((case DevForwarder up of None \<Rightarrow> [] | Some m \<Rightarrow> [DevForwarderStop])
              @ (case SyncForwarder up of None \<Rightarrow> [] | Some m \<Rightarrow> [SyncForwarderStop])),
          LogDebugf m]"

text \<open>The two debug lines a shutdown can end with.\<close>

definition completed_message :: string where
  "completed_message = ''completed shutdown sequence''"

definition terminating_message :: string where
  "terminating_message = ''tasks didn'' @ [CHR 0x27] @ ''t finish, terminating''"

subsection \<open>The exit selection as the specification words it\<close>

text \<open>
  The cause for which the specification reconnects: the wait returned
  \<open>ErrLostConnection\<close>, or it returned \<open>ErrCommandFailed\<close> and the sync engine
  says it is not connected.
\<close>

definition lost_session :: "world \<Rightarrow> error option \<Rightarrow> bool" where
  "lost_session w prevError =
     (prevError = Some ErrLostConnection
      \<or> (prevError = Some ErrCommandFailed \<and> \<not> r_IsConnected w))"

text \<open>
  The restore of the terminal with the debug line of a failed restore, and the question
  to the sync engine, which is put only when the wait returned \<open>ErrCommandFailed\<close>.
\<close>

definition restored :: "term_state \<Rightarrow> world \<Rightarrow> action list" where
  "restored st w =
     RestoreTerminal st
       # (case r_RestoreTerminal w of
            Some err \<Rightarrow> [LogDebugfErr ''failed to restore terminal: %s'' err]
          | None \<Rightarrow> [])"

definition asked :: "error option \<Rightarrow> action list" where
  "asked prevError = (if prevError = Some ErrCommandFailed then [SyIsConnected] else [])"

text \<open>
  Two more worlds for the examples: one where the sync engine reports the loss of its
  peer, one where the remote command fails.
\<close>

definition disconnect_world :: world where
  "disconnect_world = test_world\<lparr>events := [DisconnectFires]\<rparr>"

text \<open>
  The trace of an iteration from the new context to the moment the wait returns.
\<close>

definition running_trace ::
  "nat \<Rightarrow> UpContext \<Rightarrow> action list \<Rightarrow> action list \<Rightarrow> UpContext \<Rightarrow> action list
     \<Rightarrow> action list \<Rightarrow> action list" where
  "running_trace n upd td tf ups ts tw =
     [WithCancel n] @ td @ [NewDevForwarder] @ tf
       @ [DevForwarderStart (DevPod upd) (Namespace (Dev upd))] @ ts
       @ [Go (runCommand ups @ [SendRunning])] @ tw"

definition failed_world :: world where
  "failed_world = test_world\<lparr>events := [RunningDelivers (Some (Err ''exit 1''))]\<rparr>"

section \<open>Properties of the supervisor\<close>

subsection \<open>The wait\<close>

lemma logged_Nil: "logged [] = []"
  by (simp add: logged_def)

lemma logged_Cons: "logged (e # errs) = RecvErrChan e # LogYellowErr e # logged errs"
  by (simp add: logged_def)

lemma logged_no_exit_cause: "filter is_exit_cause (logged errs) = []"
  by (induction errs) (simp_all add: logged_Nil logged_Cons)

lemma Wait_errors_prefix:
  "WaitUntilExitOrInterrupt (map ErrChanDelivers errs @ evs) =
     (logged errs @ fst (WaitUntilExitOrInterrupt evs), snd (WaitUntilExitOrInterrupt evs))"
  by (induction errs) (simp_all add: logged_Nil logged_Cons split: prod.splits)

text \<open>
  Claim C2. Whatever values the errors channel delivered before (\<open>errs\<close>) and whatever
  is still pending afterwards (\<open>rest\<close>): a nil on the running channel makes the wait
  return nil, a non-nil error on the running channel makes it return
  \<open>ErrCommandFailed\<close>, the disconnect channel makes it return \<open>ErrLostConnection\<close>, and
  values on the errors channel alone never make it return (they are received and logged
  in yellow, and the wait goes on). In each returning run exactly one reception from
  (running, disconnect) is in the trace, the first that fired; a run that does not
  return has none.
\<close>

theorem C2_wait_result:
  "WaitUntilExitOrInterrupt (map ErrChanDelivers errs @ RunningDelivers None # rest) =
     (logged errs @ [RecvRunning None], Some None)
   \<and> WaitUntilExitOrInterrupt (map ErrChanDelivers errs @ RunningDelivers (Some e) # rest) =
     (logged errs @ [RecvRunning (Some e), LogInfofErr ''Command execution error: %s'' e],
      Some (Some ErrCommandFailed))
   \<and> WaitUntilExitOrInterrupt (map ErrChanDelivers errs @ DisconnectFires # rest) =
     (logged errs @ [RecvDisconnect], Some (Some ErrLostConnection))
   \<and> WaitUntilExitOrInterrupt (map ErrChanDelivers errs) = (logged errs, None)
   \<and> length (filter is_exit_cause (fst (WaitUntilExitOrInterrupt evs))) =
       (if snd (WaitUntilExitOrInterrupt evs) = None then 0 else 1)"
proof -
  have count: "length (filter is_exit_cause (fst (WaitUntilExitOrInterrupt evs))) =
       (if snd (WaitUntilExitOrInterrupt evs) = None then 0 else 1)"
    by (induction evs rule: WaitUntilExitOrInterrupt.induct)
       (auto split: option.splits prod.splits)
  have blocked: "WaitUntilExitOrInterrupt (map ErrChanDelivers errs) = (logged errs, None)"
    using Wait_errors_prefix [of errs "[]"] by simp
  show ?thesis
    using count blocked by (simp add: Wait_errors_prefix)
qed

lemma supervised_append:
  "supervised st xs \<Longrightarrow> supervised st ys \<Longrightarrow> supervised st (xs @ ys)"
proof (induction st xs rule: supervised.induct)
  case (1 st)
  then show ?case by simp
next
  case (2 st a)
  then show ?case by (cases ys) auto
next
  case (3 st a b as)
  then show ?case by (auto split: if_splits)
qed

lemma create_data_volumes_actions:
  "create_data_volumes w vs = (tr, res) \<Longrightarrow> a \<in> set tr \<Longrightarrow> is_devMode_action a"
  by (induction vs arbitrary: tr res) (auto split: option.splits prod.splits)

lemma get_deployment_actions:
  "get_deployment ds w r dv = Inl (tr, e) \<Longrightarrow> a \<in> set tr \<Longrightarrow> is_devMode_action a"
  "get_deployment ds w r dv = Inr (d, c, tr) \<Longrightarrow> a \<in> set tr \<Longrightarrow> is_devMode_action a"
  by (auto simp: get_deployment_def split: sum.splits if_splits)

lemma activate_deployment_actions:
  "activate_deployment ds w r d c up = (up', tr, res) \<Longrightarrow> a \<in> set tr
     \<Longrightarrow> is_devMode_action a"
  by (auto simp: activate_deployment_def
        split: sum.splits if_splits option.splits prod.splits
        dest: create_data_volumes_actions)

lemma devMode_actions:
  "devMode ds w r up = (up', tr, res) \<Longrightarrow> a \<in> set tr \<Longrightarrow> is_devMode_action a"
  by (auto simp: devMode_def Let_def split: sum.splits prod.splits
        dest: get_deployment_actions activate_deployment_actions)

lemma add_forwards_actions:
  "add_forwards w fs m = (m', tr, res) \<Longrightarrow> a \<in> set tr \<Longrightarrow> \<exists>l r. a = DevForwarderAdd l r"
  by (induction fs arbitrary: m m' tr res) (auto split: option.splits prod.splits)

lemma startSync_actions:
  "startSync ds w up = Returns (up', tr, r) \<Longrightarrow> a \<in> set tr \<Longrightarrow> is_sync_action a"
  by (auto simp: startSync_def Let_def split: option.splits)

lemma shutdown_actions:
  "shutdown w up = Returns (tr, t) \<Longrightarrow> a \<in> set tr \<Longrightarrow> is_shutdown_action a"
  by (auto simp: shutdown_def call_Cancel_def split: option.splits sum.splits if_splits)

lemma startSync_not_Blocks: "startSync ds w up \<noteq> Blocks"
  by (simp add: startSync_def Let_def split: option.splits)

lemma iteration_cases [case_names devMode_failed forward_failed sync_panic sync_failed
    wait_blocked left_running]:
  fixes ds st n retry w up
  defines "up1 \<equiv> up\<lparr>Context := Some n, Cancel := Some n, Disconnect := Some n,
                 Running := Some n, ErrChan := Some n\<rparr>"
  obtains
    up2 td err where
      "devMode ds w retry up1 = (up2, td, Some err)"
      "iteration ds st n retry w up = Done (send_Exit up2 ([WithCancel n] @ td) (Some err))"
  | up2 td m tf err where
      "devMode ds w retry up1 = (up2, td, None)"
      "add_forwards w (Forward (Dev up2)) (PortForwardManager (Context up2) []) = (m, tf, Some err)"
      "iteration ds st n retry w up =
         Done (send_Exit (up2\<lparr>DevForwarder := Some m\<rparr>)
                 ([WithCancel n] @ td @ [NewDevForwarder] @ tf) (Some err))"
  | up2 td m tf p where
      "devMode ds w retry up1 = (up2, td, None)"
      "add_forwards w (Forward (Dev up2)) (PortForwardManager (Context up2) []) = (m, tf, None)"
      "startSync ds w (up2\<lparr>DevForwarder := Some m\<rparr>) = Panics p"
      "iteration ds st n retry w up =
         Done (up2\<lparr>DevForwarder := Some m\<rparr>,
               [WithCancel n] @ td @ [NewDevForwarder] @ tf
                 @ [DevForwarderStart (DevPod up2) (Namespace (Dev up2))], Crashed p)"
  | up2 td m tf up4 ts err where
      "devMode ds w retry up1 = (up2, td, None)"
      "add_forwards w (Forward (Dev up2)) (PortForwardManager (Context up2) []) = (m, tf, None)"
      "startSync ds w (up2\<lparr>DevForwarder := Some m\<rparr>) = Returns (up4, ts, Some err)"
      "iteration ds st n retry w up =
         Done (send_Exit up4
                 ([WithCancel n] @ td @ [NewDevForwarder] @ tf
                    @ [DevForwarderStart (DevPod up2) (Namespace (Dev up2))] @ ts) (Some err))"
  | up2 td m tf up4 ts tw where
      "devMode ds w retry up1 = (up2, td, None)"
      "add_forwards w (Forward (Dev up2)) (PortForwardManager (Context up2) []) = (m, tf, None)"
      "startSync ds w (up2\<lparr>DevForwarder := Some m\<rparr>) = Returns (up4, ts, None)"
      "WaitUntilExitOrInterrupt (events w) = (tw, None)"
      "iteration ds st n retry w up =
         Done (up4,
               [WithCancel n] @ td @ [NewDevForwarder] @ tf
                 @ [DevForwarderStart (DevPod up2) (Namespace (Dev up2))] @ ts
                 @ [Go (runCommand up4 @ [SendRunning])] @ tw, Blocked)"
  | up2 td m tf up4 ts tw prevError where
      "devMode ds w retry up1 = (up2, td, None)"
      "add_forwards w (Forward (Dev up2)) (PortForwardManager (Context up2) []) = (m, tf, None)"
      "startSync ds w (up2\<lparr>DevForwarder := Some m\<rparr>) = Returns (up4, ts, None)"
      "WaitUntilExitOrInterrupt (events w) = (tw, Some prevError)"
      "iteration ds st n retry w up =
         after_wait st w up4
           ([WithCancel n] @ td @ [NewDevForwarder] @ tf
              @ [DevForwarderStart (DevPod up2) (Namespace (Dev up2))] @ ts
              @ [Go (runCommand up4 @ [SendRunning])] @ tw) prevError"
proof -
  obtain up2 td r1 where dm: "devMode ds w retry up1 = (up2, td, r1)"
    by (cases "devMode ds w retry up1") auto
  obtain m tf r2 where af:
    "add_forwards w (Forward (Dev up2)) (PortForwardManager (Context up2) []) = (m, tf, r2)"
    by (cases "add_forwards w (Forward (Dev up2)) (PortForwardManager (Context up2) [])") auto
  obtain tw r4 where wt: "WaitUntilExitOrInterrupt (events w) = (tw, r4)"
    by (cases "WaitUntilExitOrInterrupt (events w)") auto
  show thesis
  proof (cases r1)
    case (Some err)
    with dm show thesis
      by (intro that(1) [of up2 td err]) (simp_all add: iteration_def up1_def)
  next
    case None
    note r1 = this
    show thesis
    proof (cases r2)
      case (Some err)
      with dm af r1 show thesis
        by (intro that(2) [of up2 td m tf err]) (simp_all add: iteration_def up1_def)
    next
      case None
      note r2 = this
      show thesis
      proof (cases "startSync ds w (up2\<lparr>DevForwarder := Some m\<rparr>)")
        case (Panics p)
        with dm af r1 r2 show thesis
          by (intro that(3) [of up2 td m tf p]) (simp_all add: iteration_def up1_def Let_def)
      next
        case Blocks
        then show thesis by (simp add: startSync_not_Blocks)
      next
        case (Returns x)
        obtain up4 ts r3 where x: "x = (up4, ts, r3)" by (cases x) auto
        show thesis
        proof (cases r3)
          case (Some err)
          with dm af r1 r2 Returns x show thesis
            by (intro that(4) [of up2 td m tf up4 ts err])
               (simp_all add: iteration_def up1_def Let_def)
        next
          case None
          note r3 = this
          show thesis
          proof (cases r4)
            case None
            with dm af r1 r2 r3 Returns x wt show thesis
              by (intro that(5) [of up2 td m tf up4 ts tw])
                 (simp_all add: iteration_def up1_def Let_def)
          next
            case (Some prevError)
            with dm af r1 r2 r3 Returns x wt show thesis
              by (intro that(6) [of up2 td m tf up4 ts tw prevError])
                 (simp_all add: iteration_def up1_def Let_def)
          qed
        qed
      qed
    qed
  qed
qed

subsection \<open>The sandbox is for the first attempt only\<close>

lemma sandbox_not_sync: "is_sync_action a \<Longrightarrow> \<not> is_sandbox_action a"
  by (cases a) simp_all

lemma sandbox_not_shutdown: "is_shutdown_action a \<Longrightarrow> \<not> is_sandbox_action a"
  by (cases a) simp_all

lemma create_data_volumes_no_sandbox:
  "create_data_volumes w vs = (tr, res) \<Longrightarrow> filter is_sandbox_action tr = []"
  by (induction vs arbitrary: tr res) (auto split: option.splits prod.splits)

lemma activate_deployment_no_sandbox:
  "activate_deployment ds w r d c up = (up', tr, res) \<Longrightarrow> filter is_sandbox_action tr = []"
  by (auto simp: activate_deployment_def
        split: sum.splits if_splits option.splits prod.splits
        dest: create_data_volumes_no_sandbox)

lemma devMode_retry_no_sandbox:
  "devMode ds w True up = (up', tr, res) \<Longrightarrow> filter is_sandbox_action tr = []"
  by (auto simp: devMode_def get_deployment_def Let_def
        split: sum.splits prod.splits if_splits
        dest: activate_deployment_no_sandbox)

lemma add_forwards_no_sandbox:
  "add_forwards w fs m = (m', tr, res) \<Longrightarrow> filter is_sandbox_action tr = []"
  using add_forwards_actions by (fastforce simp: filter_empty_conv)

lemma startSync_no_sandbox:
  "startSync ds w up = Returns (up', tr, res) \<Longrightarrow> filter is_sandbox_action tr = []"
  using startSync_actions sandbox_not_sync by (fastforce simp: filter_empty_conv)

lemma shutdown_no_sandbox:
  "shutdown w up = Returns (tr, t) \<Longrightarrow> filter is_sandbox_action tr = []"
  using shutdown_actions sandbox_not_shutdown by (fastforce simp: filter_empty_conv)

lemma Wait_no_sandbox:
  "WaitUntilExitOrInterrupt evs = (tr, r) \<Longrightarrow> filter is_sandbox_action tr = []"
  by (induction evs arbitrary: tr r rule: WaitUntilExitOrInterrupt.induct)
     (auto split: option.splits prod.splits)

lemma send_Exit_no_sandbox:
  "filter is_sandbox_action tr = [] \<Longrightarrow>
   filter is_sandbox_action (fst (snd (send_Exit up tr v))) = []"
  by (simp add: send_Exit_def)

lemma reconnect_no_sandbox:
  "filter is_sandbox_action tr = [] \<Longrightarrow>
   filter is_sandbox_action (trace_of (reconnect w up tr)) = []"
  by (auto simp: reconnect_def reconnecting_message_def split: completion.splits
        dest: shutdown_no_sandbox)

lemma after_wait_no_sandbox:
  "filter is_sandbox_action tr = [] \<Longrightarrow>
   filter is_sandbox_action (trace_of (after_wait st w up tr pe)) = []"
  by (auto simp: after_wait_def Let_def send_Exit_def reconnect_no_sandbox
        split: option.splits)

lemma iteration_retry_no_sandbox:
  "filter is_sandbox_action (trace_of (iteration ds st n True w up)) = []"
proof (cases rule: iteration_cases [where ds = ds and w = w and retry = True and up = up and n = n and st = st])
  case (devMode_failed up2 td err)
  then show ?thesis
    by (simp add: send_Exit_no_sandbox devMode_retry_no_sandbox)
next
  case (forward_failed up2 td m tf err)
  then show ?thesis
    by (simp add: send_Exit_no_sandbox devMode_retry_no_sandbox add_forwards_no_sandbox)
next
  case (sync_panic up2 td m tf p)
  then show ?thesis
    by (simp add: devMode_retry_no_sandbox add_forwards_no_sandbox)
next
  case (sync_failed up2 td m tf up4 ts err)
  then show ?thesis
    by (simp add: send_Exit_no_sandbox devMode_retry_no_sandbox add_forwards_no_sandbox
          startSync_no_sandbox)
next
  case (wait_blocked up2 td m tf up4 ts tw)
  then show ?thesis
    by (simp add: devMode_retry_no_sandbox add_forwards_no_sandbox startSync_no_sandbox
          Wait_no_sandbox)
next
  case (left_running up2 td m tf up4 ts tw prevError)
  then show ?thesis
    by (simp add: after_wait_no_sandbox devMode_retry_no_sandbox add_forwards_no_sandbox
          startSync_no_sandbox Wait_no_sandbox)
qed

lemma loop_retry_no_sandbox:
  "Activate_loop ds st n True up ws = (up', tr, out) \<Longrightarrow> filter is_sandbox_action tr = []"
proof (induction ws arbitrary: n up up' tr out)
  case Nil
  then show ?case by simp
next
  case (Cons w ws)
  show ?case
  proof (cases "iteration ds st n True w up")
    case (Done r)
    with Cons.prems iteration_retry_no_sandbox [of ds st n w up] show ?thesis by auto
  next
    case (Again u t)
    obtain u2 t2 o2 where rec: "Activate_loop ds st (Suc n) True u ws = (u2, t2, o2)"
      by (cases "Activate_loop ds st (Suc n) True u ws") auto
    with Cons.prems Again have "tr = t @ t2" by simp
    moreover have "filter is_sandbox_action t = []"
      using iteration_retry_no_sandbox [of ds st n w up] Again by simp
    moreover have "filter is_sandbox_action t2 = []"
      using Cons.IH [OF rec] .
    ultimately show ?thesis by simp
  qed
qed

text \<open>
  Claim C5. On a retry (\<open>isRetry = True\<close>), when the client and the sync engine were
  obtained and the fetch of the deployment fails with a not-found error, \<open>devMode\<close>
  returns that very error, having done nothing after the fetch: no prompt, no sandbox.
  More generally no run of \<open>devMode\<close> on a retry contains the prompt or the making of
  the sandbox, and neither does any run of the supervisor loop once the retry flag is
  set: both are reachable on the first attempt only.
\<close>

theorem C5_retry_not_found:
  "(r_GetLocal w = Inr g \<and> r_syncthing_New w = Inr sy \<and> r_deployments_Get w = Inl err
      \<and> IsNotFound ds err \<longrightarrow>
      (\<exists>up' ns. devMode ds w True up =
         (up', [GetLocal, SyncthingNew, DeploymentsGet (Name (Dev up)) ns], Some err)))
   \<and> filter is_sandbox_action (fst (snd (devMode ds w True up))) = []
   \<and> filter is_sandbox_action (fst (snd (Activate_loop ds st n True up ws))) = []"
proof (intro conjI impI)
  assume "r_GetLocal w = Inr g \<and> r_syncthing_New w = Inr sy \<and> r_deployments_Get w = Inl err
      \<and> IsNotFound ds err"
  then show "\<exists>up' ns. devMode ds w True up =
         (up', [GetLocal, SyncthingNew, DeploymentsGet (Name (Dev up)) ns], Some err)"
    by (cases g) (auto simp: devMode_def get_deployment_def Let_def)
next
  show "filter is_sandbox_action (fst (snd (devMode ds w True up))) = []"
    using devMode_retry_no_sandbox [of ds w up] by (cases "devMode ds w True up") auto
next
  show "filter is_sandbox_action (fst (snd (Activate_loop ds st n True up ws))) = []"
    using loop_retry_no_sandbox [of ds st n up ws]
    by (cases "Activate_loop ds st n True up ws") auto
qed

text \<open>
  Witness for C5: the example session, on a retry, with a deployment that is not found.
\<close>

theorem C5_retry_not_found_witness:
  "(\<exists>up' ns. devMode test_deps (test_world\<lparr>r_deployments_Get := Inl (Err ''not found'')\<rparr>) True
       (new_UpContext test_dev) =
         (up', [GetLocal, SyncthingNew, DeploymentsGet ''web'' ns], Some (Err ''not found'')))"
  using C5_retry_not_found [of "test_world\<lparr>r_deployments_Get := Inl (Err ''not found'')\<rparr>"
      "(1, 2, ''default'')" "\<lparr>Type = ''sendonly'', RemotePort = 22100, RemoteGUIPort = 8484\<rparr>"
      "Err ''not found''" test_deps "new_UpContext test_dev"]
  by (simp add: test_world_def test_deps_def test_dev_def new_UpContext_def)

subsection \<open>The early returns of devMode\<close>

lemma devMode_get_failed:
  assumes "r_GetLocal w = Inr g" "r_syncthing_New w = Inr sy"
    "get_deployment ds w r ((Dev up)\<lparr>Namespace := effective_namespace w up\<rparr>) = Inl (tg, err)"
  shows "\<exists>up'. devMode ds w r up = (up', [GetLocal, SyncthingNew] @ tg, Some err)
           \<and> Exit up' = Exit up"
  using assms by (cases g) (auto simp: devMode_def Let_def effective_namespace_def)

text \<open>
  Claim C6. On a retry, when the client and the sync engine were obtained and the
  deployment is fetched and is not in dev mode, \<open>devMode\<close> returns the error
  "Your Okteto Environment has been deactivated" and its trace ends with the fetch: no
  secret, volume or dev-mode call was made. On a first attempt the check is not applied:
  with the same answers \<open>devMode\<close> goes on to create the secret, and its result does
  not depend on \<open>IsDevModeOn\<close> at all.
\<close>

theorem C6_retry_deactivated:
  "(r_GetLocal w = Inr g \<and> r_syncthing_New w = Inr sy \<and> r_deployments_Get w = Inr d
      \<and> \<not> IsDevModeOn ds d \<longrightarrow>
      (\<exists>up'. devMode ds w True up =
         (up', [GetLocal, SyncthingNew,
                DeploymentsGet (Name (Dev up)) (effective_namespace w up)],
          Some (Err ''Your Okteto Environment has been deactivated'')))
      \<and> (\<exists>tr. fst (snd (devMode ds w False up)) =
            [GetLocal, SyncthingNew,
             DeploymentsGet (Name (Dev up)) (effective_namespace w up), SecretsCreate] @ tr))
   \<and> devMode (ds\<lparr>IsDevModeOn := f\<rparr>) w False up = devMode ds w False up"
proof (intro conjI impI)
  assume h: "r_GetLocal w = Inr g \<and> r_syncthing_New w = Inr sy \<and> r_deployments_Get w = Inr d
      \<and> \<not> IsDevModeOn ds d"
  then show "\<exists>up'. devMode ds w True up =
         (up', [GetLocal, SyncthingNew,
                DeploymentsGet (Name (Dev up)) (effective_namespace w up)],
          Some (Err ''Your Okteto Environment has been deactivated''))"
    by (cases g)
       (auto simp: devMode_def get_deployment_def activate_deployment_def Let_def
          effective_namespace_def)
  from h show "\<exists>tr. fst (snd (devMode ds w False up)) =
            [GetLocal, SyncthingNew,
             DeploymentsGet (Name (Dev up)) (effective_namespace w up), SecretsCreate] @ tr"
    by (cases g)
       (auto simp: devMode_def get_deployment_def activate_deployment_def Let_def
          effective_namespace_def split: option.splits sum.splits prod.splits)
next
  have a: "get_deployment (ds\<lparr>IsDevModeOn := f\<rparr>) w r dv = get_deployment ds w r dv"
    for r dv
    by (simp add: get_deployment_def split: sum.splits)
  have b: "activate_deployment (ds\<lparr>IsDevModeOn := f\<rparr>) w False d' c u =
      activate_deployment ds w False d' c u" for d' c u
    by (simp add: activate_deployment_def
          split: sum.splits option.splits prod.splits)
  show "devMode (ds\<lparr>IsDevModeOn := f\<rparr>) w False up = devMode ds w False up"
    unfolding devMode_def a b ..
qed

text \<open>Witness for C6: the example session with a deployment that is not in dev mode.\<close>

theorem C6_retry_deactivated_witness:
  "(\<exists>up'. devMode test_deps (test_world\<lparr>r_deployments_Get := Inr ''web''\<rparr>) True
        (new_UpContext test_dev) =
         (up', [GetLocal, SyncthingNew, DeploymentsGet ''web'' ''ns''],
          Some (Err ''Your Okteto Environment has been deactivated'')))
   \<and> (\<exists>tr. fst (snd (devMode test_deps (test_world\<lparr>r_deployments_Get := Inr ''web''\<rparr>) False
        (new_UpContext test_dev))) =
         [GetLocal, SyncthingNew, DeploymentsGet ''web'' ''ns'', SecretsCreate] @ tr)"
  using C6_retry_deactivated [of "test_world\<lparr>r_deployments_Get := Inr ''web''\<rparr>"
      "(1, 2, ''default'')" "\<lparr>Type = ''sendonly'', RemotePort = 22100, RemoteGUIPort = 8484\<rparr>"
      "''web''" test_deps "new_UpContext test_dev"]
  by (simp add: test_world_def test_deps_def test_dev_def new_UpContext_def
        effective_namespace_def)

text \<open>
  Claim C9. On a first attempt, when the deployment is not found and the user answers no
  to the prompt, \<open>devMode\<close> returns the error of line 238 at once: its trace is the two
  local calls, the fetch and the prompt. The supervisor then sends this error on the
  exit channel and returns; the whole trace of the supervisor holds no call that creates
  a secret, a volume or a service or that applies dev mode.
\<close>

theorem C9_declined_sandbox:
  "r_GetLocal w = Inr g \<and> r_syncthing_New w = Inr sy \<and> r_deployments_Get w = Inl err
     \<and> IsNotFound ds err \<and> \<not> r_askYesNo w \<longrightarrow>
   (\<exists>up'. devMode ds w False up =
      (up', [GetLocal, SyncthingNew,
             DeploymentsGet (Name (Dev up)) (effective_namespace w up),
             AskYesNo (Name (Dev up))],
       Some (declined (Name (Dev up)) (effective_namespace w up))))
   \<and> (Exit up = [] \<longrightarrow>
        (\<exists>up'. Activate ds (Inr st) up (w # ws) =
           (up', [SaveState, WithCancel 0, GetLocal, SyncthingNew,
                  DeploymentsGet (Name (Dev up)) (effective_namespace w up),
                  AskYesNo (Name (Dev up)),
                  SendExit (Some (declined (Name (Dev up)) (effective_namespace w up)))],
            Posted (Some (declined (Name (Dev up)) (effective_namespace w up)))))
        \<and> filter is_cluster_mutation (fst (snd (Activate ds (Inr st) up (w # ws)))) = [])"
proof (intro impI)
  assume h: "r_GetLocal w = Inr g \<and> r_syncthing_New w = Inr sy \<and> r_deployments_Get w = Inl err
     \<and> IsNotFound ds err \<and> \<not> r_askYesNo w"
  have gd: "get_deployment ds w False ((Dev u)\<lparr>Namespace := effective_namespace w u\<rparr>) =
      Inl ([DeploymentsGet (Name (Dev u)) (effective_namespace w u), AskYesNo (Name (Dev u))],
           declined (Name (Dev u)) (effective_namespace w u))" for u
    using h by (simp add: get_deployment_def declined_def)
  have dm: "\<exists>up'. devMode ds w False u =
      (up', [GetLocal, SyncthingNew,
             DeploymentsGet (Name (Dev u)) (effective_namespace w u), AskYesNo (Name (Dev u))],
       Some (declined (Name (Dev u)) (effective_namespace w u))) \<and> Exit up' = Exit u" for u
    using devMode_get_failed [OF _ _ gd, of g sy u] h by simp
  have first: "\<exists>up'. devMode ds w False up =
      (up', [GetLocal, SyncthingNew,
             DeploymentsGet (Name (Dev up)) (effective_namespace w up),
             AskYesNo (Name (Dev up))],
       Some (declined (Name (Dev up)) (effective_namespace w up)))"
    using dm [of up] by blast
  have second: "\<exists>up'. Activate ds (Inr st) up (w # ws) =
           (up', [SaveState, WithCancel 0, GetLocal, SyncthingNew,
                  DeploymentsGet (Name (Dev up)) (effective_namespace w up),
                  AskYesNo (Name (Dev up)),
                  SendExit (Some (declined (Name (Dev up)) (effective_namespace w up)))],
            Posted (Some (declined (Name (Dev up)) (effective_namespace w up))))"
    if ex: "Exit up = []"
  proof -
    let ?u = "up\<lparr>Context := Some 0, Cancel := Some 0, Disconnect := Some 0,
                 Running := Some 0, ErrChan := Some 0\<rparr>"
    obtain up' where d: "devMode ds w False ?u =
      (up', [GetLocal, SyncthingNew,
             DeploymentsGet (Name (Dev ?u)) (effective_namespace w ?u), AskYesNo (Name (Dev ?u))],
       Some (declined (Name (Dev ?u)) (effective_namespace w ?u)))" and e: "Exit up' = Exit ?u"
      using dm [of ?u] by blast
    have ns: "effective_namespace w ?u = effective_namespace w up"
      by (simp add: effective_namespace_def)
    show ?thesis
      using d e ex ns by (simp add: Activate_def iteration_def send_Exit_def)
  qed
  from first second show "(\<exists>up'. devMode ds w False up =
      (up', [GetLocal, SyncthingNew,
             DeploymentsGet (Name (Dev up)) (effective_namespace w up),
             AskYesNo (Name (Dev up))],
       Some (declined (Name (Dev up)) (effective_namespace w up))))
   \<and> (Exit up = [] \<longrightarrow>
        (\<exists>up'. Activate ds (Inr st) up (w # ws) =
           (up', [SaveState, WithCancel 0, GetLocal, SyncthingNew,
                  DeploymentsGet (Name (Dev up)) (effective_namespace w up),
                  AskYesNo (Name (Dev up)),
                  SendExit (Some (declined (Name (Dev up)) (effective_namespace w up)))],
            Posted (Some (declined (Name (Dev up)) (effective_namespace w up)))))
        \<and> filter is_cluster_mutation (fst (snd (Activate ds (Inr st) up (w # ws)))) = [])"
    by auto
qed

text \<open>Witness for C9: the example session with a missing deployment and the answer no.\<close>

theorem C9_declined_sandbox_witness:
  "\<exists>up'. Activate test_deps (Inr 7) (new_UpContext test_dev)
       [test_world\<lparr>r_deployments_Get := Inl (Err ''not found'')\<rparr>] =
     (up', [SaveState, WithCancel 0, GetLocal, SyncthingNew, DeploymentsGet ''web'' ''ns'',
            AskYesNo ''web'',
            SendExit (Some (Err ''deployment web not found [current context: ns]''))],
      Posted (Some (Err ''deployment web not found [current context: ns]'')))"
  using C9_declined_sandbox [of "test_world\<lparr>r_deployments_Get := Inl (Err ''not found'')\<rparr>"
      "(1, 2, ''default'')" "\<lparr>Type = ''sendonly'', RemotePort = 22100, RemoteGUIPort = 8484\<rparr>"
      "Err ''not found''" test_deps "new_UpContext test_dev" 7 "[]"]
  by (simp add: test_world_def test_deps_def test_dev_def new_UpContext_def
        effective_namespace_def declined_def)

subsection \<open>The order of the sync bring-up\<close>

lemma first_failure_prefix:
  "fst (first_failure steps) = take (length (fst (first_failure steps))) (map fst steps)"
  by (induction steps rule: first_failure.induct) (auto split: option.splits prod.splits)

lemma startSync_first_failure:
  "Sy up = Some sy \<Longrightarrow>
   \<exists>up'. startSync ds w up = Returns (up', first_failure (sync_plan ds w up sy))"
  by (auto simp: startSync_def sync_plan_def Let_def split: option.splits)

lemma activate_deployment_Exit:
  "activate_deployment ds w r d c up = (up', tr, res) \<Longrightarrow> Exit up' = Exit up"
  by (auto simp: activate_deployment_def
        split: sum.splits if_splits option.splits prod.splits)

lemma devMode_Exit:
  "devMode ds w r up = (up', tr, res) \<Longrightarrow> Exit up' = Exit up"
  by (auto simp: devMode_def Let_def split: sum.splits prod.splits if_splits
        dest: activate_deployment_Exit)

lemma startSync_Exit:
  "startSync ds w up = Returns (up', tr, res) \<Longrightarrow> Exit up' = Exit up"
  by (auto simp: startSync_def Let_def split: option.splits)

lemma iteration_Exit_before_wait:
  assumes "devMode ds w retry
             (up\<lparr>Context := Some n, Cancel := Some n, Disconnect := Some n,
                 Running := Some n, ErrChan := Some n\<rparr>) = (upd, td, None)"
    "startSync ds w (upd\<lparr>DevForwarder := Some m\<rparr>) = Returns (ups, ts, res)"
  shows "Exit ups = Exit up"
  using devMode_Exit [OF assms(1)] startSync_Exit [OF assms(2)] by simp

text \<open>
  Claim C7. \<open>startSync\<close> performs the steps of the bring-up strictly in the order of
  \<open>sync_plan\<close>: what it does and returns is what \<open>first_failure\<close> gives on that
  plan, so its trace is an initial segment of the steps in order, it ends at the first
  step that fails, and the error of that step is the result. When an iteration of the
  supervisor has come to \<open>startSync\<close> and this fails with \<open>err\<close>, the supervisor
  sends \<open>err\<close> on the exit channel and returns: the trace ends with the send and the
  worlds of later iterations are not looked at.
\<close>

theorem C7_sync_order:
  "(Sy up = Some sy \<longrightarrow>
      (\<exists>up'. startSync ds w up = Returns (up', first_failure (sync_plan ds w up sy)))
      \<and> fst (first_failure (sync_plan ds w up sy)) =
          take (length (fst (first_failure (sync_plan ds w up sy))))
            (map fst (sync_plan ds w up sy)))
   \<and> (Exit u = []
      \<and> devMode ds w retry
             (u\<lparr>Context := Some n, Cancel := Some n, Disconnect := Some n,
                 Running := Some n, ErrChan := Some n\<rparr>) = (upd, td, None)
      \<and> add_forwards w (Forward (Dev upd)) (PortForwardManager (Context upd) []) = (m, tf, None)
      \<and> startSync ds w (upd\<lparr>DevForwarder := Some m\<rparr>) = Returns (ups, ts, Some err) \<longrightarrow>
      Activate_loop ds st n retry u (w # ws) =
        (ups\<lparr>Exit := [Some err]\<rparr>,
         [WithCancel n] @ td @ [NewDevForwarder] @ tf
           @ [DevForwarderStart (DevPod upd) (Namespace (Dev upd))] @ ts
           @ [SendExit (Some err)],
         Posted (Some err)))"
proof (intro conjI impI)
  assume "Sy up = Some sy"
  then show "\<exists>up'. startSync ds w up = Returns (up', first_failure (sync_plan ds w up sy))"
    by (rule startSync_first_failure)
next
  show "fst (first_failure (sync_plan ds w up sy)) =
          take (length (fst (first_failure (sync_plan ds w up sy))))
            (map fst (sync_plan ds w up sy))"
    by (rule first_failure_prefix)
next
  assume h: "Exit u = []
      \<and> devMode ds w retry
             (u\<lparr>Context := Some n, Cancel := Some n, Disconnect := Some n,
                 Running := Some n, ErrChan := Some n\<rparr>) = (upd, td, None)
      \<and> add_forwards w (Forward (Dev upd)) (PortForwardManager (Context upd) []) = (m, tf, None)
      \<and> startSync ds w (upd\<lparr>DevForwarder := Some m\<rparr>) = Returns (ups, ts, Some err)"
  then have "Exit ups = Exit u"
    by (intro iteration_Exit_before_wait [where retry = retry and ds = ds and w = w]) auto
  with h have "Exit ups = []"
    by simp
  with h show "Activate_loop ds st n retry u (w # ws) =
        (ups\<lparr>Exit := [Some err]\<rparr>,
         [WithCancel n] @ td @ [NewDevForwarder] @ tf
           @ [DevForwarderStart (DevPod upd) (Namespace (Dev upd))] @ ts
           @ [SendExit (Some err)],
         Posted (Some err))"
    by (simp add: iteration_def Let_def send_Exit_def)
qed

text \<open>
  Witness for C7: the example session in a world where overriding the remote changes
  fails.
\<close>

theorem C7_sync_order_witness:
  "(\<exists>up'. startSync test_deps conflict_world
       ((new_UpContext test_dev)\<lparr>Sy := Some \<lparr>Type = ''sendonly'', RemotePort = 22100,
           RemoteGUIPort = 8484\<rparr>\<rparr>) =
      Returns (up',
        [SyRun, NewSyncForwarder, SyncForwarderAdd 22100 22000, SyncForwarderAdd 8484 8384,
         SyncForwarderStart [] ''ns'', Go [SyMonitor], SyWaitForPing, SyWaitForCompletion,
         SyOverrideChanges],
        Some (Err ''conflict'')))
   \<and> snd (snd (Activate_loop test_deps 7 0 False (new_UpContext test_dev)
                  [conflict_world, test_world])) = Posted (Some (Err ''conflict''))"
proof -
  let ?u1 = "(new_UpContext test_dev)\<lparr>Context := Some 0, Cancel := Some 0,
               Disconnect := Some 0, Running := Some 0, ErrChan := Some 0\<rparr>"
  let ?dm = "devMode test_deps conflict_world False ?u1"
  let ?af = "add_forwards conflict_world (Forward (Dev (fst ?dm)))
               (PortForwardManager (Context (fst ?dm)) [])"
  let ?ss = "case startSync test_deps conflict_world
                    ((fst ?dm)\<lparr>DevForwarder := Some (fst ?af)\<rparr>) of
               Returns x \<Rightarrow> x"
  show ?thesis
    using C7_sync_order [where up = "(new_UpContext test_dev)\<lparr>Sy := Some \<lparr>Type = ''sendonly'',
          RemotePort = 22100, RemoteGUIPort = 8484\<rparr>\<rparr>"
        and sy = "\<lparr>Type = ''sendonly'', RemotePort = 22100, RemoteGUIPort = 8484\<rparr>"
        and ds = test_deps and w = conflict_world and u = "new_UpContext test_dev"
        and retry = False and n = 0 and st = 7 and ws = "[test_world]"
        and upd = "fst ?dm" and td = "fst (snd ?dm)" and m = "fst ?af" and tf = "fst (snd ?af)"
        and ups = "fst ?ss" and ts = "fst (snd ?ss)" and err = "Err ''conflict''"]
    by (simp add: conflict_world_def test_world_def test_deps_def test_dev_def
          new_UpContext_def sync_plan_def devMode_def get_deployment_def
          activate_deployment_def startSync_def Let_def)
qed

subsection \<open>The shutdown returns, and the supervisor does not panic\<close>

lemma upt_2: "[0 ..< 2] = [0, Suc 0]"
  by (simp add: upt_rec)

lemma pick_of_two: "[0, Suc 0] ! (p mod Suc (Suc 0)) = p mod 2"
proof -
  have "p mod 2 = 0 \<or> p mod 2 = 1" by arith
  then show ?thesis by (auto simp: numeral_2_eq_2)
qed

lemma select_done_or_timer:
  "select_case [x, Some 1000] p =
     Some (case x of
             None \<Rightarrow> (1, 1000)
           | Some d \<Rightarrow>
               if d < 1000 then (0, d)
               else if d = 1000 then (p mod 2, 1000) else (1, 1000))"
  by (cases x)
     (simp_all add: select_case_def earliest_def List.map_filter_def upt_2 Let_def min_def
        pick_of_two)

lemma shutdown_eq:
  "shutdown w up =
     (case select_case [if WG up \<noteq> None then r_WG_drain w else Some 0, Some 1000] (r_pick w) of
        None \<Rightarrow> Blocks
      | Some (i, t) \<Rightarrow>
          Returns (shutdown_calls up
                     (if i = 0 then completed_message else terminating_message), t))"
  by (cases "Cancel up"; cases "WG up"; cases "DevForwarder up"; cases "SyncForwarder up")
     (simp_all add: shutdown_def shutdown_calls_def call_Cancel_def call_Wait_def
        call_Stop_def completed_message_def terminating_message_def split: option.splits)

lemma shutdown_returns:
  "\<exists>m t. shutdown w up = Returns (shutdown_calls up m, t) \<and> t \<le> 1000"
  unfolding shutdown_eq select_done_or_timer
  by (auto split: option.splits)

lemma devMode_Sy:
  "devMode ds w r up = (up', tr, None) \<Longrightarrow> \<exists>sy. Sy up' = Some sy"
  by (auto simp: devMode_def Let_def activate_deployment_def
        split: sum.splits prod.splits if_splits option.splits)

lemma startSync_Sy:
  "startSync ds w up = Returns (up', tr, res) \<Longrightarrow> \<exists>sy. Sy up' = Some sy"
  by (auto simp: startSync_def Let_def split: option.splits)

lemma startSync_no_panic:
  "Sy up = Some sy \<Longrightarrow> startSync ds w up \<noteq> Panics p"
  by (auto simp: startSync_def Let_def split: option.splits)

lemma reconnect_Again:
  "\<exists>m t. reconnect w up tr =
     Again up (tr @ [LogYellow reconnecting_message] @ shutdown_calls up m)"
  using shutdown_returns [of w up] by (auto simp: reconnect_def)

lemma send_Exit_not_crashed: "send_Exit up tr v \<noteq> (u, t, Crashed p)"
  by (simp add: send_Exit_def)

lemma after_wait_not_crashed:
  "Sy up = Some sy \<Longrightarrow> after_wait st w up tr pe \<noteq> Done (u, t, Crashed p)"
  using reconnect_Again [of w up]
  by (auto simp: after_wait_def Let_def send_Exit_not_crashed split: option.splits)
     (metis step.distinct(1))+

lemma iteration_not_crashed: "iteration ds st n retry w up \<noteq> Done (u, t, Crashed p)"
proof (cases rule: iteration_cases [where ds = ds and w = w and retry = retry and up = up
      and n = n and st = st])
  case (devMode_failed up2 td err)
  then show ?thesis by (simp add: send_Exit_not_crashed)
next
  case (forward_failed up2 td m tf err)
  then show ?thesis by (simp add: send_Exit_not_crashed)
next
  case (sync_panic up2 td m tf p)
  then show ?thesis
    using devMode_Sy [OF sync_panic(1)]
      startSync_no_panic [of "up2\<lparr>DevForwarder := Some m\<rparr>" _ ds w p]
    by auto
next
  case (sync_failed up2 td m tf up4 ts err)
  then show ?thesis by (simp add: send_Exit_not_crashed)
next
  case (wait_blocked up2 td m tf up4 ts tw)
  then show ?thesis by simp
next
  case (left_running up2 td m tf up4 ts tw prevError)
  then show ?thesis
    using startSync_Sy [OF left_running(3)] after_wait_not_crashed by auto
qed

lemma loop_not_crashed: "Activate_loop ds st n retry up ws \<noteq> (u, t, Crashed p)"
proof (induction ws arbitrary: n retry up u t)
  case Nil
  then show ?case by simp
next
  case (Cons w ws)
  show ?case
  proof (cases "iteration ds st n retry w up")
    case (Done r)
    then show ?thesis
      using iteration_not_crashed [of ds st n retry w up] by (cases r) auto
  next
    case (Again u' t')
    then show ?thesis
      using Cons.IH [of "Suc n" True u'] by (auto split: prod.splits)
  qed
qed

lemma Activate_not_crashed: "Activate ds saved up ws \<noteq> (u, t, Crashed p)"
  using loop_not_crashed
  by (auto simp: Activate_def send_Exit_not_crashed split: sum.splits prod.splits)

text \<open>
  Claim C10. For every context \<open>up\<close>, whatever fields of it are nil, and in every
  world, \<open>shutdown\<close> returns and does not panic, and its trace is \<open>shutdown_calls\<close>:
  the cancel function is called, the wait-group is waited on and each forwarder is
  stopped exactly when the field is not nil. On the context that \<open>RunUp\<close> has just
  built, where only the wait-group is set, the shutdown calls neither the cancel function
  nor a forwarder; with the wait-group nil too the first goroutine only closes the
  channel. \<open>RunUp\<close> never panics, whether its \<^verbatim>\<open>select\<close> takes the interrupt, in
  whatever state the supervisor has left the context by then, or the exit channel.
\<close>

theorem C10_shutdown_nil_safe:
  "(\<exists>m t. shutdown w up = Returns (shutdown_calls up m, t))
   \<and> (\<exists>m t. shutdown w (new_UpContext dv) =
         Returns ([LogDebugf ''cancelling context'',
                   LogDebugf ''waiting for tasks for be done'',
                   Go [WGWait, CloseDone], Go [], LogDebugf m], t))
   \<and> (\<exists>m t. shutdown w ((new_UpContext dv)\<lparr>WG := None\<rparr>) =
         Returns ([LogDebugf ''cancelling context'',
                   LogDebugf ''waiting for tasks for be done'',
                   Go [CloseDone], Go [], LogDebugf m], t))
   \<and> RunUp ds dv saved ws interrupt wd \<noteq> Some (Panics p)"
proof (intro conjI)
  show "\<exists>m t. shutdown w up = Returns (shutdown_calls up m, t)"
    using shutdown_returns [of w up] by blast
  show "\<exists>m t. shutdown w (new_UpContext dv) =
         Returns ([LogDebugf ''cancelling context'',
                   LogDebugf ''waiting for tasks for be done'',
                   Go [WGWait, CloseDone], Go [], LogDebugf m], t)"
    using shutdown_returns [of w "new_UpContext dv"]
    by (auto simp: shutdown_calls_def new_UpContext_def)
  show "\<exists>m t. shutdown w ((new_UpContext dv)\<lparr>WG := None\<rparr>) =
         Returns ([LogDebugf ''cancelling context'',
                   LogDebugf ''waiting for tasks for be done'',
                   Go [CloseDone], Go [], LogDebugf m], t)"
    using shutdown_returns [of w "(new_UpContext dv)\<lparr>WG := None\<rparr>"]
    by (auto simp: shutdown_calls_def new_UpContext_def)
  have d: "deferred_shutdown wd u tr r \<noteq> Panics p" for u tr r
    using shutdown_returns [of wd u] by (auto simp: deferred_shutdown_def)
  show "RunUp ds dv saved ws interrupt wd \<noteq> Some (Panics p)"
  proof (cases interrupt)
    case (Some u)
    then show ?thesis by (simp add: RunUp_def d)
  next
    case None
    obtain u t out where a: "Activate ds saved (new_UpContext dv) ws = (u, t, out)"
      by (cases "Activate ds saved (new_UpContext dv) ws") auto
    then show ?thesis
      using None Activate_not_crashed [of ds saved "new_UpContext dv" ws u t] d
      by (cases out) (auto simp: RunUp_def split: list.splits option.splits)
  qed
qed

text \<open>
  Claim C4. In every world and for every context the shutdown returns, at most 1000
  milliseconds after it began, whether or not the wait-group ever drains. It cancels the
  scope, starts one goroutine that waits on the wait-group and one that stops the
  forwarders (\<open>shutdown_calls\<close>), and waits for the first of the two: when the
  wait-group never drains, or drains after more than a second, the shutdown returns at
  1000 milliseconds with the line "tasks didn't finish, terminating"; when it drains
  earlier the shutdown returns at that time. A shutdown does not change the context, and
  a second shutdown of it returns as well, within the second.
\<close>

theorem C4_shutdown_returns:
  "(\<exists>tr t. shutdown w up = Returns (tr, t) \<and> t \<le> 1000)
   \<and> (WG up \<noteq> None \<and> (r_WG_drain w = None \<or> (\<exists>d. r_WG_drain w = Some d \<and> 1000 < d)) \<longrightarrow>
        shutdown w up = Returns (shutdown_calls up terminating_message, 1000))
   \<and> (WG up \<noteq> None \<and> r_WG_drain w = Some d \<and> d < 1000 \<longrightarrow>
        shutdown w up = Returns (shutdown_calls up completed_message, d))
   \<and> (\<exists>tr t tr' t'. shutdown w up = Returns (tr, t) \<and> shutdown w' up = Returns (tr', t')
         \<and> t' \<le> 1000)"
proof (intro conjI impI)
  show "\<exists>tr t. shutdown w up = Returns (tr, t) \<and> t \<le> 1000"
    using shutdown_returns [of w up] by blast
  show "shutdown w up = Returns (shutdown_calls up terminating_message, 1000)"
    if "WG up \<noteq> None \<and> (r_WG_drain w = None \<or> (\<exists>d. r_WG_drain w = Some d \<and> 1000 < d))"
    using that unfolding shutdown_eq select_done_or_timer by auto
  show "shutdown w up = Returns (shutdown_calls up completed_message, d)"
    if "WG up \<noteq> None \<and> r_WG_drain w = Some d \<and> d < 1000"
    using that unfolding shutdown_eq select_done_or_timer by auto
  show "\<exists>tr t tr' t'. shutdown w up = Returns (tr, t) \<and> shutdown w' up = Returns (tr', t')
         \<and> t' \<le> 1000"
    using shutdown_returns [of w up] shutdown_returns [of w' up] by blast
qed

text \<open>
  Witness for C4: a wait-group that never drains, and one that drains after 20
  milliseconds.
\<close>

theorem C4_shutdown_returns_witness:
  "shutdown (test_world\<lparr>r_WG_drain := None\<rparr>) (new_UpContext test_dev) =
     Returns ([LogDebugf ''cancelling context'', LogDebugf ''waiting for tasks for be done'',
               Go [WGWait, CloseDone], Go [], LogDebugf terminating_message], 1000)
   \<and> shutdown test_world (new_UpContext test_dev) =
     Returns ([LogDebugf ''cancelling context'', LogDebugf ''waiting for tasks for be done'',
               Go [WGWait, CloseDone], Go [], LogDebugf completed_message], 20)"
  using C4_shutdown_returns [of "test_world\<lparr>r_WG_drain := None\<rparr>" "new_UpContext test_dev"]
    C4_shutdown_returns [of test_world "new_UpContext test_dev" 20]
  by (simp add: test_world_def new_UpContext_def shutdown_calls_def)

subsection \<open>The exit channel and the result of RunUp\<close>

lemma send_Exit_Posted:
  "send_Exit up tr v = (u, t, Posted v') \<Longrightarrow> v' = v \<and> Exit up = [] \<and> Exit u = [v]"
  by (auto simp: send_Exit_def split: if_splits)

lemma after_wait_eq:
  assumes "Sy up = Some sy"
  shows "\<exists>m. after_wait st w up tr pe =
     (if lost_session w pe
      then Again up (tr @ restored st w @ asked pe @ [LogYellow reconnecting_message]
                       @ shutdown_calls up m)
      else Done (send_Exit up (tr @ restored st w @ asked pe) pe))"
proof -
  obtain m where r: "\<And>t. reconnect w up t =
      Again up (t @ [LogYellow reconnecting_message] @ shutdown_calls up m)"
    using shutdown_returns [of w up] by (auto simp: reconnect_def)
  show ?thesis
  proof (cases pe)
    case None
    then show ?thesis
      by (simp add: after_wait_def lost_session_def restored_def asked_def)
  next
    case (Some e)
    then show ?thesis
      using assms r
      by (cases e) (auto simp: after_wait_def lost_session_def restored_def asked_def)
  qed
qed

lemma after_wait_Again:
  assumes "Sy up = Some sy" "after_wait st w up tr pe = Again u t"
  shows "u = up"
  using after_wait_eq [OF assms(1), of st w tr pe] assms(2)
  by (auto split: if_splits)

lemma after_wait_Posted:
  assumes "Sy up = Some sy" "after_wait st w up tr pe = Done (u, t, Posted v)"
  shows "Exit u = [v]"
  using after_wait_eq [OF assms(1), of st w tr pe] assms(2)
  by (auto split: if_splits dest: send_Exit_Posted send_Exit_Posted [OF sym])

lemma iteration_Again_Exit:
  assumes "iteration ds st n retry w up = Again u t"
  shows "Exit u = Exit up"
proof (cases rule: iteration_cases [where ds = ds and w = w and retry = retry and up = up
      and n = n and st = st])
  case (left_running up2 td m tf up4 ts tw prevError)
  obtain sy where "Sy up4 = Some sy"
    using startSync_Sy [OF left_running(3)] by blast
  then have "u = up4"
    using after_wait_Again [of up4 sy st w _ prevError u t] left_running(5) assms by simp
  then show ?thesis
    using iteration_Exit_before_wait [OF left_running(1) left_running(3)] by simp
qed (use assms in simp_all)

lemma iteration_Posted_Exit:
  assumes "iteration ds st n retry w up = Done (u, t, Posted v)"
  shows "Exit u = [v]"
proof (cases rule: iteration_cases [where ds = ds and w = w and retry = retry and up = up
      and n = n and st = st])
  case (devMode_failed up2 td err)
  with assms show ?thesis by (auto dest: send_Exit_Posted send_Exit_Posted [OF sym])
next
  case (forward_failed up2 td m tf err)
  with assms show ?thesis by (auto dest: send_Exit_Posted send_Exit_Posted [OF sym])
next
  case (sync_panic up2 td m tf p)
  with assms show ?thesis by simp
next
  case (sync_failed up2 td m tf up4 ts err)
  with assms show ?thesis by (auto dest: send_Exit_Posted send_Exit_Posted [OF sym])
next
  case (wait_blocked up2 td m tf up4 ts tw)
  with assms show ?thesis by simp
next
  case (left_running up2 td m tf up4 ts tw prevError)
  obtain sy where "Sy up4 = Some sy"
    using startSync_Sy [OF left_running(3)] by blast
  then show ?thesis
    using after_wait_Posted [of up4 sy st w _ prevError u t v] left_running(5) assms by simp
qed

lemma loop_Posted_Exit:
  "Activate_loop ds st n retry up ws = (u, t, Posted v) \<Longrightarrow> Exit u = [v]"
proof (induction ws arbitrary: n retry up u t)
  case Nil
  then show ?case by simp
next
  case (Cons w ws)
  show ?case
  proof (cases "iteration ds st n retry w up")
    case (Done r)
    with Cons.prems have "iteration ds st n retry w up = Done (u, t, Posted v)" by simp
    then show ?thesis by (rule iteration_Posted_Exit)
  next
    case (Again u' t')
    obtain u2 t2 o2 where rec: "Activate_loop ds st (Suc n) True u' ws = (u2, t2, o2)"
      by (cases "Activate_loop ds st (Suc n) True u' ws") auto
    with Cons.prems Again have "u2 = u" "o2 = Posted v" by simp_all
    with rec show ?thesis using Cons.IH by blast
  qed
qed

lemma Activate_Posted_Exit:
  assumes "Activate ds saved up ws = (u, t, Posted v)"
  shows "Exit u = [v]"
proof (cases saved)
  case (Inl err)
  with assms show ?thesis by (auto simp: Activate_def dest: send_Exit_Posted)
next
  case (Inr state)
  obtain u2 t2 o2 where rec: "Activate_loop ds state 0 False up ws = (u2, t2, o2)"
    by (cases "Activate_loop ds state 0 False up ws") auto
  with assms Inr have "u2 = u" "o2 = Posted v" by (simp_all add: Activate_def)
  with rec show ?thesis using loop_Posted_Exit by blast
qed

lemma deferred_shutdown_returns:
  "\<exists>ts. deferred_shutdown wd x tr r = Returns (tr @ ts, r)"
  using shutdown_returns [of wd x] by (auto simp: deferred_shutdown_def)

lemma RunUp_exit_delivered:
  assumes "Activate ds saved (new_UpContext dv) ws = (x, t, Posted v)"
  shows "\<exists>tr. RunUp ds dv saved ws None wd = Some (Returns (tr, v))"
proof -
  have e: "Exit x = [v]"
    using assms by (rule Activate_Posted_Exit)
  show ?thesis
  proof (cases v)
    case None
    obtain ts where "deferred_shutdown wd (x\<lparr>Exit := []\<rparr>)
        [LogDebugf ''finished channel received, starting shutdown sequence''] None =
        Returns ([LogDebugf ''finished channel received, starting shutdown sequence''] @ ts, None)"
      using deferred_shutdown_returns by blast
    with assms e None show ?thesis by (simp add: RunUp_def)
  next
    case (Some err)
    obtain ts where "deferred_shutdown wd (x\<lparr>Exit := []\<rparr>) [] (Some err) =
        Returns ([] @ ts, Some err)"
      using deferred_shutdown_returns by blast
    with assms e Some show ?thesis by (simp add: RunUp_def)
  qed
qed

text \<open>
  Claim C8. When the \<^verbatim>\<open>select\<close> of \<open>RunUp\<close> takes the interrupt, \<open>RunUp\<close> runs
  the deferred shutdown and returns nil, whatever the supervisor has done by then. When
  it takes the exit channel, \<open>RunUp\<close> returns what the supervisor sent: nil for nil,
  and the error \<open>e\<close> for \<open>e\<close>.
\<close>

theorem C8_RunUp_result:
  "(\<exists>tr. RunUp ds dv saved ws (Some u) wd = Some (Returns (tr, None)))
   \<and> (snd (snd (Activate ds saved (new_UpContext dv) ws)) = Posted None \<longrightarrow>
        (\<exists>tr. RunUp ds dv saved ws None wd = Some (Returns (tr, None))))
   \<and> (snd (snd (Activate ds saved (new_UpContext dv) ws)) = Posted (Some e) \<longrightarrow>
        (\<exists>tr. RunUp ds dv saved ws None wd = Some (Returns (tr, Some e))))"
proof (intro conjI impI)
  obtain ts where "deferred_shutdown wd u
      [LogDebugf ''CTRL+C received, starting shutdown sequence''] None =
      Returns ([LogDebugf ''CTRL+C received, starting shutdown sequence''] @ ts, None)"
    using deferred_shutdown_returns by blast
  then show "\<exists>tr. RunUp ds dv saved ws (Some u) wd = Some (Returns (tr, None))"
    by (simp add: RunUp_def)
next
  assume "snd (snd (Activate ds saved (new_UpContext dv) ws)) = Posted None"
  then obtain x t where "Activate ds saved (new_UpContext dv) ws = (x, t, Posted None)"
    by (cases "Activate ds saved (new_UpContext dv) ws") auto
  then show "\<exists>tr. RunUp ds dv saved ws None wd = Some (Returns (tr, None))"
    by (rule RunUp_exit_delivered)
next
  assume "snd (snd (Activate ds saved (new_UpContext dv) ws)) = Posted (Some e)"
  then obtain x t where "Activate ds saved (new_UpContext dv) ws = (x, t, Posted (Some e))"
    by (cases "Activate ds saved (new_UpContext dv) ws") auto
  then show "\<exists>tr. RunUp ds dv saved ws None wd = Some (Returns (tr, Some e))"
    by (rule RunUp_exit_delivered)
qed

text \<open>The example sessions, evaluated.\<close>

lemmas run_defs = Activate_def iteration_def devMode_def get_deployment_def
  activate_deployment_def startSync_def after_wait_def send_Exit_def Let_def
  test_world_def conflict_world_def test_deps_def test_dev_def new_UpContext_def

lemma test_session_outcome:
  "snd (snd (Activate test_deps (Inr 7) (new_UpContext test_dev) [test_world])) = Posted None"
  by (simp add: run_defs)

lemma conflict_session_outcome:
  "snd (snd (Activate test_deps (Inr 7) (new_UpContext test_dev) [conflict_world])) =
     Posted (Some (Err ''conflict''))"
  by (simp add: run_defs)

text \<open>
  Witness for C8: an interrupt on the fresh context, the example session that ends with
  a clean exit of the command, and the one where the sync bring-up fails.
\<close>

theorem C8_RunUp_result_witness:
  "(\<exists>tr. RunUp test_deps test_dev (Inr 7) [test_world] (Some (new_UpContext test_dev))
            test_world = Some (Returns (tr, None)))
   \<and> (\<exists>tr. RunUp test_deps test_dev (Inr 7) [test_world] None test_world =
            Some (Returns (tr, None)))
   \<and> (\<exists>tr. RunUp test_deps test_dev (Inr 7) [conflict_world] None test_world =
            Some (Returns (tr, Some (Err ''conflict''))))"
  using C8_RunUp_result [of test_deps test_dev "Inr 7" "[test_world]" "new_UpContext test_dev"
      test_world]
    C8_RunUp_result [of test_deps test_dev "Inr 7" "[conflict_world]" _ test_world
      "Err ''conflict''"]
    test_session_outcome conflict_session_outcome
  by simp

subsection \<open>The exit selection\<close>

text \<open>
  Claim C1. Take any iteration of the supervisor loop that has come to the wait, the wait
  having returned \<open>prevError\<close>, with the exit channel empty. If \<open>prevError\<close> is
  \<open>ErrLostConnection\<close>, or is \<open>ErrCommandFailed\<close> while the sync engine says it is
  not connected (\<open>lost_session\<close>), the iteration shuts down and the loop goes round
  again: the run is the trace of this iteration, ending with the shutdown, followed by
  the run of the loop on the next worlds with the retry flag set. In every other case,
  nil included, the iteration sends \<open>prevError\<close> on the exit channel and the supervisor
  returns: the send ends the trace and the next worlds are not looked at.
\<close>

theorem C1_exit_selection:
  "Exit u = []
   \<and> devMode ds w retry
         (u\<lparr>Context := Some n, Cancel := Some n, Disconnect := Some n,
             Running := Some n, ErrChan := Some n\<rparr>) = (upd, td, None)
   \<and> add_forwards w (Forward (Dev upd)) (PortForwardManager (Context upd) []) = (m, tf, None)
   \<and> startSync ds w (upd\<lparr>DevForwarder := Some m\<rparr>) = Returns (ups, ts, None)
   \<and> WaitUntilExitOrInterrupt (events w) = (tw, Some prevError) \<longrightarrow>
   (lost_session w prevError \<longrightarrow>
      (\<exists>msg. iteration ds st n retry w u =
           Again ups (running_trace n upd td tf ups ts tw @ restored st w @ asked prevError
                        @ [LogYellow reconnecting_message] @ shutdown_calls ups msg)
         \<and> Activate_loop ds st n retry u (w # ws) =
             (case Activate_loop ds st (Suc n) True ups ws of
                (u', tr', out) \<Rightarrow>
                  (u', running_trace n upd td tf ups ts tw @ restored st w @ asked prevError
                         @ [LogYellow reconnecting_message] @ shutdown_calls ups msg @ tr',
                   out))))
   \<and> (\<not> lost_session w prevError \<longrightarrow>
        iteration ds st n retry w u =
          Done (ups\<lparr>Exit := [prevError]\<rparr>,
                running_trace n upd td tf ups ts tw @ restored st w @ asked prevError
                  @ [SendExit prevError],
                Posted prevError)
        \<and> Activate_loop ds st n retry u (w # ws) =
            (ups\<lparr>Exit := [prevError]\<rparr>,
             running_trace n upd td tf ups ts tw @ restored st w @ asked prevError
               @ [SendExit prevError],
             Posted prevError))"
proof (intro impI)
  assume h: "Exit u = []
   \<and> devMode ds w retry
         (u\<lparr>Context := Some n, Cancel := Some n, Disconnect := Some n,
             Running := Some n, ErrChan := Some n\<rparr>) = (upd, td, None)
   \<and> add_forwards w (Forward (Dev upd)) (PortForwardManager (Context upd) []) = (m, tf, None)
   \<and> startSync ds w (upd\<lparr>DevForwarder := Some m\<rparr>) = Returns (ups, ts, None)
   \<and> WaitUntilExitOrInterrupt (events w) = (tw, Some prevError)"
  let ?tr = "running_trace n upd td tf ups ts tw"
  have it: "iteration ds st n retry w u = after_wait st w ups ?tr prevError"
    using h by (simp add: iteration_def Let_def running_trace_def)
  have "Exit ups = Exit u"
    using h by (intro iteration_Exit_before_wait [where retry = retry and ds = ds and w = w]) auto
  with h have ex: "Exit ups = []" by simp
  obtain sy where sy: "Sy ups = Some sy"
    using h startSync_Sy by blast
  obtain msg where aw: "after_wait st w ups ?tr prevError =
     (if lost_session w prevError
      then Again ups (?tr @ restored st w @ asked prevError @ [LogYellow reconnecting_message]
                       @ shutdown_calls ups msg)
      else Done (send_Exit ups (?tr @ restored st w @ asked prevError) prevError))"
    using after_wait_eq [OF sy, of st w ?tr prevError] by blast
  have lost: "\<exists>msg. iteration ds st n retry w u =
           Again ups (?tr @ restored st w @ asked prevError
                        @ [LogYellow reconnecting_message] @ shutdown_calls ups msg)
         \<and> Activate_loop ds st n retry u (w # ws) =
             (case Activate_loop ds st (Suc n) True ups ws of
                (u', tr', out) \<Rightarrow>
                  (u', ?tr @ restored st w @ asked prevError
                         @ [LogYellow reconnecting_message] @ shutdown_calls ups msg @ tr',
                   out))"
    if "lost_session w prevError"
    using that it aw by (intro exI [of _ msg]) (simp split: prod.splits)
  have kept: "iteration ds st n retry w u =
          Done (ups\<lparr>Exit := [prevError]\<rparr>,
                ?tr @ restored st w @ asked prevError @ [SendExit prevError],
                Posted prevError)
        \<and> Activate_loop ds st n retry u (w # ws) =
            (ups\<lparr>Exit := [prevError]\<rparr>,
             ?tr @ restored st w @ asked prevError @ [SendExit prevError],
             Posted prevError)"
    if "\<not> lost_session w prevError"
    using that it aw ex by (simp add: send_Exit_def)
  from lost kept show "(lost_session w prevError \<longrightarrow>
      (\<exists>msg. iteration ds st n retry w u =
           Again ups (?tr @ restored st w @ asked prevError
                        @ [LogYellow reconnecting_message] @ shutdown_calls ups msg)
         \<and> Activate_loop ds st n retry u (w # ws) =
             (case Activate_loop ds st (Suc n) True ups ws of
                (u', tr', out) \<Rightarrow>
                  (u', ?tr @ restored st w @ asked prevError
                         @ [LogYellow reconnecting_message] @ shutdown_calls ups msg @ tr',
                   out))))
   \<and> (\<not> lost_session w prevError \<longrightarrow>
        iteration ds st n retry w u =
          Done (ups\<lparr>Exit := [prevError]\<rparr>,
                ?tr @ restored st w @ asked prevError @ [SendExit prevError],
                Posted prevError)
        \<and> Activate_loop ds st n retry u (w # ws) =
            (ups\<lparr>Exit := [prevError]\<rparr>,
             ?tr @ restored st w @ asked prevError @ [SendExit prevError],
             Posted prevError))"
    by blast
qed

text \<open>
  Witness for C1: the example session when the disconnect channel fires, and when the
  command fails while the sync engine is connected.
\<close>

theorem C1_exit_selection_witness:
  "(\<exists>u tr. iteration test_deps 7 0 False disconnect_world (new_UpContext test_dev) = Again u tr)
   \<and> snd (snd (Activate_loop test_deps 7 0 False (new_UpContext test_dev)
                  [failed_world, test_world])) = Posted (Some ErrCommandFailed)"
proof -
  let ?u1 = "(new_UpContext test_dev)\<lparr>Context := Some 0, Cancel := Some 0,
               Disconnect := Some 0, Running := Some 0, ErrChan := Some 0\<rparr>"
  let ?dm = "devMode test_deps test_world False ?u1"
  let ?af = "add_forwards test_world (Forward (Dev (fst ?dm)))
               (PortForwardManager (Context (fst ?dm)) [])"
  let ?ss = "case startSync test_deps test_world
                    ((fst ?dm)\<lparr>DevForwarder := Some (fst ?af)\<rparr>) of
               Returns x \<Rightarrow> x"
  have a: "\<exists>u tr. iteration test_deps 7 0 False disconnect_world (new_UpContext test_dev) =
      Again u tr"
    using C1_exit_selection [where ds = test_deps and w = disconnect_world
        and u = "new_UpContext test_dev" and retry = False and n = 0 and st = 7
        and ws = "[test_world]"
        and upd = "fst ?dm" and td = "fst (snd ?dm)" and m = "fst ?af" and tf = "fst (snd ?af)"
        and ups = "fst ?ss" and ts = "fst (snd ?ss)" and tw = "[RecvDisconnect]"
        and prevError = "Some ErrLostConnection"]
    by (simp add: run_defs disconnect_world_def lost_session_def) blast
  have b: "snd (snd (Activate_loop test_deps 7 0 False (new_UpContext test_dev)
                  [failed_world, test_world])) = Posted (Some ErrCommandFailed)"
    using C1_exit_selection [where ds = test_deps and w = failed_world
        and u = "new_UpContext test_dev" and retry = False and n = 0 and st = 7
        and ws = "[test_world]"
        and upd = "fst ?dm" and td = "fst (snd ?dm)" and m = "fst ?af" and tf = "fst (snd ?af)"
        and ups = "fst ?ss" and ts = "fst (snd ?ss)"
        and tw = "[RecvRunning (Some (Err ''exit 1'')),
                   LogInfofErr ''Command execution error: %s'' (Err ''exit 1'')]"
        and prevError = "Some ErrCommandFailed"]
    by (simp add: run_defs failed_world_def lost_session_def)
  from a b show ?thesis by blast
qed

subsection \<open>The terminal is saved once and restored after every wait\<close>

lemma supervision_not_devMode: "is_devMode_action a \<Longrightarrow> \<not> is_supervision a"
  by (cases a) simp_all

lemma supervision_not_sync: "is_sync_action a \<Longrightarrow> \<not> is_supervision a"
  by (cases a) simp_all

lemma devMode_no_supervision:
  "devMode ds w r up = (up', tr, res) \<Longrightarrow> filter is_supervision tr = []"
  using devMode_actions supervision_not_devMode by (fastforce simp: filter_empty_conv)

lemma add_forwards_no_supervision:
  "add_forwards w fs m = (m', tr, res) \<Longrightarrow> filter is_supervision tr = []"
  using add_forwards_actions by (fastforce simp: filter_empty_conv)

lemma startSync_no_supervision:
  "startSync ds w up = Returns (up', tr, res) \<Longrightarrow> filter is_supervision tr = []"
  using startSync_actions supervision_not_sync by (fastforce simp: filter_empty_conv)

lemma shutdown_calls_no_supervision: "filter is_supervision (shutdown_calls up m) = []"
  by (simp add: shutdown_calls_def split: option.splits)

lemma Wait_supervision:
  "WaitUntilExitOrInterrupt evs = (tw, r) \<Longrightarrow>
   filter is_supervision tw = filter is_exit_cause tw
   \<and> (case r of None \<Rightarrow> filter is_exit_cause tw = []
       | Some v \<Rightarrow> \<exists>c. filter is_exit_cause tw = [c] \<and> is_exit_cause c)"
  by (induction evs arbitrary: tw r rule: WaitUntilExitOrInterrupt.induct)
     (auto split: option.splits prod.splits)

lemma restored_supervision: "filter is_supervision (restored st w) = [RestoreTerminal st]"
  by (simp add: restored_def split: option.splits)

lemma asked_supervision: "filter is_supervision (asked pe) = asked pe"
  by (simp add: asked_def)

lemma send_Exit_supervised:
  "filter is_supervision tr = [] \<Longrightarrow>
   supervised st (filter is_supervision (fst (snd (send_Exit up tr v))))"
  by (simp add: send_Exit_def)

lemma left_running_supervised:
  assumes "is_exit_cause c"
  shows "supervised st ([c, RestoreTerminal st] @ asked pe @ [LogYellow m])"
    "supervised st ([c, RestoreTerminal st] @ asked pe @ [SendExit v])"
    "supervised st ([c, RestoreTerminal st] @ asked pe)"
  using assms by (simp_all add: asked_def)

lemma iteration_supervised:
  "supervised st (filter is_supervision (trace_of (iteration ds st n retry w up)))"
proof (cases rule: iteration_cases [where ds = ds and w = w and retry = retry and up = up
      and n = n and st = st])
  case (devMode_failed up2 td err)
  then show ?thesis
    by (simp add: send_Exit_supervised devMode_no_supervision)
next
  case (forward_failed up2 td m tf err)
  then show ?thesis
    by (simp add: send_Exit_supervised devMode_no_supervision add_forwards_no_supervision)
next
  case (sync_panic up2 td m tf p)
  then show ?thesis
    by (simp add: devMode_no_supervision add_forwards_no_supervision)
next
  case (sync_failed up2 td m tf up4 ts err)
  then show ?thesis
    by (simp add: send_Exit_supervised devMode_no_supervision add_forwards_no_supervision
          startSync_no_supervision)
next
  case (wait_blocked up2 td m tf up4 ts tw)
  then show ?thesis
    using Wait_supervision [OF wait_blocked(4)]
    by (simp add: devMode_no_supervision add_forwards_no_supervision
          startSync_no_supervision)
next
  case (left_running up2 td m tf up4 ts tw prevError)
  let ?tr = "[WithCancel n] @ td @ [NewDevForwarder] @ tf
              @ [DevForwarderStart (DevPod up2) (Namespace (Dev up2))] @ ts
              @ [Go (runCommand up4 @ [SendRunning])] @ tw"
  obtain c where c: "filter is_supervision tw = [c]" "is_exit_cause c"
    using Wait_supervision [OF left_running(4)] by auto
  then have v: "filter is_supervision ?tr = [c]"
    using left_running
    by (simp add: devMode_no_supervision add_forwards_no_supervision
          startSync_no_supervision)
  obtain sy where "Sy up4 = Some sy"
    using startSync_Sy [OF left_running(3)] by blast
  then obtain m' where aw: "after_wait st w up4 ?tr prevError =
     (if lost_session w prevError
      then Again up4 (?tr @ restored st w @ asked prevError @ [LogYellow reconnecting_message]
                       @ shutdown_calls up4 m')
      else Done (send_Exit up4 (?tr @ restored st w @ asked prevError) prevError))"
    using after_wait_eq [of up4 sy st w ?tr prevError] by blast
  have "supervised st (filter is_supervision (trace_of (after_wait st w up4 ?tr prevError)))"
  proof (cases "lost_session w prevError")
    case True
    have "filter is_supervision
            (?tr @ restored st w @ asked prevError @ [LogYellow reconnecting_message]
               @ shutdown_calls up4 m') =
          [c, RestoreTerminal st] @ asked prevError @ [LogYellow reconnecting_message]"
      using v
      by (simp only: filter_append restored_supervision asked_supervision
            shutdown_calls_no_supervision) simp
    with True aw c(2) show ?thesis
      by (simp only: if_True trace_of.simps left_running_supervised)
  next
    case False
    have f: "filter is_supervision (?tr @ restored st w @ asked prevError) =
          [c, RestoreTerminal st] @ asked prevError"
      using v
      by (simp only: filter_append restored_supervision asked_supervision) simp
    have "fst (snd (send_Exit up4 (?tr @ restored st w @ asked prevError) prevError)) =
            ?tr @ restored st w @ asked prevError
          \<or> fst (snd (send_Exit up4 (?tr @ restored st w @ asked prevError) prevError)) =
            (?tr @ restored st w @ asked prevError) @ [SendExit prevError]"
      by (simp add: send_Exit_def)
    then have "filter is_supervision
                 (fst (snd (send_Exit up4 (?tr @ restored st w @ asked prevError) prevError))) =
               [c, RestoreTerminal st] @ asked prevError
          \<or> filter is_supervision
                 (fst (snd (send_Exit up4 (?tr @ restored st w @ asked prevError) prevError))) =
               [c, RestoreTerminal st] @ asked prevError @ [SendExit prevError]"
      using f by (elim disjE) (simp_all only: filter_append, simp_all)
    with False aw c(2) show ?thesis
      by (auto simp only: if_False trace_of.simps left_running_supervised)
  qed
  with left_running(5) show ?thesis by simp
qed

lemma loop_supervised:
  "Activate_loop ds st n retry up ws = (u, tr, out) \<Longrightarrow>
   supervised st (filter is_supervision tr)"
proof (induction ws arbitrary: n retry up u tr out)
  case Nil
  then show ?case by simp
next
  case (Cons w ws)
  have it: "supervised st (filter is_supervision (trace_of (iteration ds st n retry w up)))"
    by (rule iteration_supervised)
  show ?case
  proof (cases "iteration ds st n retry w up")
    case (Done r)
    with Cons.prems it show ?thesis by auto
  next
    case (Again u' t')
    obtain u2 t2 o2 where rec: "Activate_loop ds st (Suc n) True u' ws = (u2, t2, o2)"
      by (cases "Activate_loop ds st (Suc n) True u' ws") auto
    with Cons.prems Again have "tr = t' @ t2" by simp
    moreover have "supervised st (filter is_supervision t')"
      using it Again by simp
    moreover have "supervised st (filter is_supervision t2)"
      using Cons.IH [OF rec] .
    ultimately show ?thesis by (simp add: supervised_append)
  qed
qed

lemma supervised_counts:
  "supervised st xs \<Longrightarrow>
   filter is_restore xs = replicate (length (filter is_exit_cause xs)) (RestoreTerminal st)
   \<and> filter (\<lambda>a. a = SaveState) xs = []"
proof (induction st xs rule: supervised.induct)
  case (1 st)
  then show ?case by simp
next
  case (2 st a)
  then show ?case by (cases a) auto
next
  case (3 st a b as)
  then show ?case by (cases a) (auto split: if_splits)
qed

lemma view_restore: "filter is_restore (filter is_supervision xs) = filter is_restore xs"
proof -
  have "is_restore a \<Longrightarrow> is_supervision a" for a by (cases a) simp_all
  then show ?thesis by (auto simp: filter_filter intro: filter_cong)
qed

lemma view_exit_cause:
  "filter is_exit_cause (filter is_supervision xs) = filter is_exit_cause xs"
proof -
  have "is_exit_cause a \<Longrightarrow> is_supervision a" for a by (cases a) simp_all
  then show ?thesis by (auto simp: filter_filter intro: filter_cong)
qed

lemma view_save:
  "filter (\<lambda>a. a = SaveState) (filter is_supervision xs) = filter (\<lambda>a. a = SaveState) xs"
  by (auto simp: filter_filter intro: filter_cong)

text \<open>
  Claim C3. In every run of the supervisor in which the terminal state \<open>st\<close> was
  saved, the save is the first action of the trace and occurs nowhere else: the state is
  not saved again when the loop goes round. In the view of the trace that keeps the save,
  the restores, the receptions that end a wait, the question to the sync engine, the
  reconnection line and the send on the exit channel, every reception that ends a wait
  is followed at once by the restore of the terminal to \<open>st\<close>, before the question,
  the reconnection line or the send, and no restore occurs anywhere else
  (\<open>supervised\<close>). So there are as many restores as waits left, each to \<open>st\<close>. When
  the save fails the loop is not entered: the error is sent on the exit channel.
\<close>

theorem C3_terminal_discipline:
  "(\<exists>tr. fst (snd (Activate ds (Inr st) up ws)) = SaveState # tr
        \<and> supervised st (filter is_supervision tr)
        \<and> filter (\<lambda>a. a = SaveState) tr = []
        \<and> filter is_restore tr =
            replicate (length (filter is_exit_cause tr)) (RestoreTerminal st))
   \<and> Activate ds (Inl err) up ws = send_Exit up [SaveState] (Some err)"
proof (intro conjI)
  obtain u tr out where l: "Activate_loop ds st 0 False up ws = (u, tr, out)"
    by (cases "Activate_loop ds st 0 False up ws") auto
  have s: "supervised st (filter is_supervision tr)"
    using l by (rule loop_supervised)
  have "filter (\<lambda>a. a = SaveState) tr = []"
    using supervised_counts [OF s] by (simp only: view_save)
  moreover have "filter is_restore tr =
      replicate (length (filter is_exit_cause tr)) (RestoreTerminal st)"
    using supervised_counts [OF s] by (simp only: view_restore view_exit_cause)
  moreover have "fst (snd (Activate ds (Inr st) up ws)) = SaveState # tr"
    using l by (simp add: Activate_def)
  ultimately show "\<exists>tr. fst (snd (Activate ds (Inr st) up ws)) = SaveState # tr
        \<and> supervised st (filter is_supervision tr)
        \<and> filter (\<lambda>a. a = SaveState) tr = []
        \<and> filter is_restore tr =
            replicate (length (filter is_exit_cause tr)) (RestoreTerminal st)"
    using s by blast
  show "Activate ds (Inl err) up ws = send_Exit up [SaveState] (Some err)"
    by (simp add: Activate_def)
qed

lemma reconnected_session_trace:
  "filter is_supervision
     (fst (snd (Activate test_deps (Inr 7) (new_UpContext test_dev)
                  [disconnect_world, test_world]))) =
   [SaveState, RecvDisconnect, RestoreTerminal 7, LogYellow reconnecting_message,
    RecvRunning None, RestoreTerminal 7, SendExit None]"
  by (simp add: run_defs disconnect_world_def reconnect_def shutdown_eq
        select_done_or_timer shutdown_calls_def)

text \<open>
  Witness for C3: the session that loses its connection once and then ends with a clean
  exit of the command leaves two waits and restores the terminal twice.
\<close>

theorem C3_terminal_discipline_witness:
  "filter is_restore
     (fst (snd (Activate test_deps (Inr 7) (new_UpContext test_dev)
                  [disconnect_world, test_world]))) =
   [RestoreTerminal 7, RestoreTerminal 7]
   \<and> filter is_exit_cause
     (fst (snd (Activate test_deps (Inr 7) (new_UpContext test_dev)
                  [disconnect_world, test_world]))) =
   [RecvDisconnect, RecvRunning None]"
proof -
  let ?tr = "fst (snd (Activate test_deps (Inr 7) (new_UpContext test_dev)
                  [disconnect_world, test_world]))"
  have c: "filter is_exit_cause ?tr = [RecvDisconnect, RecvRunning None]"
    using arg_cong [OF reconnected_session_trace, of "filter is_exit_cause"]
    by (simp only: view_exit_cause) simp
  obtain tr where t: "?tr = SaveState # tr"
    and r: "filter is_restore tr =
            replicate (length (filter is_exit_cause tr)) (RestoreTerminal 7)"
    using C3_terminal_discipline [of test_deps 7 "new_UpContext test_dev"
        "[disconnect_world, test_world]"]
    by blast
  from c t have "length (filter is_exit_cause tr) = 2" by simp
  with r t have "filter is_restore ?tr = [RestoreTerminal 7, RestoreTerminal 7]"
    by (simp add: numeral_2_eq_2)
  with c show ?thesis by blast
qed

end
